theory Spec2Isabelle
  imports Complex_Main
begin

section \<open>Python values used by the notification daemon\<close>

text \<open>
  The development embeds \<^verbatim>\<open>src/ignis/services/notifications.py\<close>: the classes
  \<^verbatim>\<open>Notification\<close>, \<^verbatim>\<open>NotificationAction\<close> and \<^verbatim>\<open>NotificationService\<close>.
  Python exceptions are values of \<open>error\<close>; a method that can raise returns a
  \<open>result\<close> together with the state it had reached when it raised.
\<close>

datatype error = IndexError | KeyError | TypeError | AttributeError | JSONDecodeError

datatype 'a result = Returned 'a | Raised error

text \<open>
  Sequencing: when the first computation raises, the exception propagates with the
  state reached; otherwise the second runs on the value and state of the first.
\<close>

definition and_then :: "'a result \<times> 's \<Rightarrow> ('a \<Rightarrow> 's \<Rightarrow> 'b result \<times> 's) \<Rightarrow> 'b result \<times> 's" where
  "and_then x f = (case x of (Raised e, s) \<Rightarrow> (Raised e, s) | (Returned v, s) \<Rightarrow> f v s)"

subsection \<open>Dictionaries\<close>

text \<open>
  A Python \<^verbatim>\<open>dict\<close> keeps its keys in insertion order. It is an association
  list with one entry per key: \<^verbatim>\<open>d[k] = v\<close> replaces the value in place when the
  key is present and appends otherwise, \<^verbatim>\<open>d.pop(k)\<close> removes the entry,
  \<^verbatim>\<open>list(d.values())\<close> lists the values in insertion order.
\<close>

definition dict_get :: "('k \<times> 'v) list \<Rightarrow> 'k \<Rightarrow> 'v option" where
  "dict_get d k = map_of d k"

definition dict_set :: "'k \<Rightarrow> 'v \<Rightarrow> ('k \<times> 'v) list \<Rightarrow> ('k \<times> 'v) list" where
  "dict_set k v d =
     (case map_of d k of
        None \<Rightarrow> d @ [(k, v)]
      | Some _ \<Rightarrow> map (\<lambda>(k', v'). if k' = k then (k', v) else (k', v')) d)"

definition dict_pop :: "'k \<Rightarrow> ('k \<times> 'v) list \<Rightarrow> ('k \<times> 'v) list" where
  "dict_pop k d = filter (\<lambda>(k', v'). k' \<noteq> k) d"

definition dict_values :: "('k \<times> 'v) list \<Rightarrow> 'v list" where
  "dict_values d = map snd d"

subsection \<open>Decimal rendering of an identifier\<close>

definition digit_char :: "nat \<Rightarrow> char" where
  "digit_char d =
     (if d = 0 then CHR ''0'' else if d = 1 then CHR ''1'' else if d = 2 then CHR ''2''
      else if d = 3 then CHR ''3'' else if d = 4 then CHR ''4'' else if d = 5 then CHR ''5''
      else if d = 6 then CHR ''6'' else if d = 7 then CHR ''7'' else if d = 8 then CHR ''8''
      else CHR ''9'')"

fun str_nat :: "nat \<Rightarrow> string" where
  "str_nat n = (if n < 10 then [digit_char n] else str_nat (n div 10) @ [digit_char (n mod 10)])"

definition str_int :: "int \<Rightarrow> string" where
  "str_int i = (if i < 0 then CHR ''-'' # str_nat (nat (- i)) else str_nat (nat i))"

section \<open>The data model\<close>

type_synonym addr = nat

text \<open>
  The \<^verbatim>\<open>hints\<close> dictionary of a \<^verbatim>\<open>Notify\<close> call, restricted to the two keys
  the daemon reads: \<^verbatim>\<open>"urgency"\<close> and \<^verbatim>\<open>"image-data"\<close>. \<open>None\<close> is an absent
  key. The image data is the tuple \<^verbatim>\<open>px_args\<close> that \<^verbatim>\<open>__save_pixbuf\<close> indexes at
  0, 1, 2, 3, 4 and 6.
\<close>

datatype pxval = Px_int int | Px_bool bool | Px_bytes "nat list"

record hints =
  urgency_hint :: "int option"
  image_data :: "pxval list option"

record pixbuf =
  px_width :: pxval
  px_height :: pxval
  px_has_alpha :: pxval
  px_data :: pxval
  px_rowstride :: pxval
  px_bits_per_sample :: pxval

text \<open>The arguments of \<^verbatim>\<open>__Notify\<close> that its closure \<^verbatim>\<open>_init\<close> captures.\<close>

record notify_args =
  app_name :: string
  app_icon :: string
  summary :: string
  body :: string
  actions :: "string list"
  hints :: hints
  timeout :: int

text \<open>
  The callbacks the daemon connects to a notification: to \<^verbatim>\<open>"closed"\<close> the lambdas
  of \<^verbatim>\<open>__add_notification\<close> (calling \<^verbatim>\<open>__close_notification\<close>) and of
  \<^verbatim>\<open>__Notify\<close> (calling \<^verbatim>\<open>_init(_id)\<close>), to \<^verbatim>\<open>"dismissed"\<close> the lambda of
  \<^verbatim>\<open>__add_notification\<close> (calling \<^verbatim>\<open>__dismiss_popup\<close>).
\<close>

datatype closed_handler = Close_notification | Init_replacement notify_args int

datatype dismissed_handler = Dismiss_popup

text \<open>
  A \<^verbatim>\<open>Notification\<close> object. \<open>n_actions\<close> are the \<^verbatim>\<open>NotificationAction\<close>
  objects as pairs (id, label); \<open>n_popup\<close> is the only field a method changes.
\<close>

record notification =
  n_id :: int
  n_app_name :: string
  n_icon :: "string option"
  n_summary :: string
  n_body :: string
  n_actions :: "(string \<times> string) list"
  n_urgency :: int
  n_timeout :: int
  n_time :: real
  n_popup :: bool
  on_closed :: "closed_handler list"
  on_dismissed :: "dismissed_handler list"

text \<open>
  The parsed content of \<^verbatim>\<open>notifications.json\<close>. \<open>stored\<close> is one JSON object of
  the \<^verbatim>\<open>"notifications"\<close> array, as the dictionary \<^verbatim>\<open>**n\<close> unpacks: each key of
  \<^verbatim>\<open>Notification.json\<close> is present (\<open>Some\<close>) or absent, and \<open>j_other\<close> lists any
  further keys. Field values have the types of the annotations of
  \<^verbatim>\<open>Notification.__init__\<close>; \<open>j_icon = Some None\<close> is JSON \<^verbatim>\<open>null\<close>.
\<close>

record stored =
  j_id :: "int option"
  j_app_name :: "string option"
  j_icon :: "string option option"
  j_summary :: "string option"
  j_body :: "string option"
  j_actions :: "string list option"
  j_timeout :: "int option"
  j_time :: "real option"
  j_urgency :: "int option"
  j_other :: "string list"

datatype entry = Object stored | Not_a_mapping

datatype entries = Entries "entry list" | Not_iterable

text \<open>
  \<open>Unreadable\<close>: the file is missing or is not JSON (\<^verbatim>\<open>open\<close> or \<^verbatim>\<open>json.load\<close>
  raises). \<open>Not_a_dict\<close>: JSON whose top level has no \<^verbatim>\<open>get\<close>. \<open>Document i ns\<close>:
  a JSON object with its \<^verbatim>\<open>"id"\<close> and \<^verbatim>\<open>"notifications"\<close> members, \<open>None\<close>
  when the key is absent.
\<close>

datatype blob = Unreadable | Not_a_dict | Document "int option" "entries option"

text \<open>
  Signals and messages. \<open>Closed\<close> and \<open>Dismissed\<close> are the signals of a
  \<^verbatim>\<open>Notification\<close>, \<open>Notified\<close> and \<open>New_popup\<close> those of the service; the
  \<open>Property_*\<close> events are the calls of \<^verbatim>\<open>notify(...)\<close>;
  \<open>Bus_NotificationClosed\<close> is the D-Bus signal sent by \<^verbatim>\<open>DBusService.emit_signal\<close>;
  \<open>Log_warning\<close> is the call of \<^verbatim>\<open>logger.warning\<close>.
\<close>

datatype event =
    Closed addr
  | Dismissed addr
  | Property_popup addr
  | New_popup addr
  | Notified addr
  | Property_popups
  | Property_notifications
  | Bus_NotificationClosed int int
  | Log_warning

text \<open>
  The state of a \<^verbatim>\<open>NotificationService\<close>: \<^verbatim>\<open>_id\<close>, \<^verbatim>\<open>_notifications\<close> and
  \<^verbatim>\<open>_popups\<close> (dictionaries from id to object reference), the objects themselves
  (\<open>heap\<close>, a reference is an index), the cache file and the image files, the three
  options read from the options service, the timers started by \<^verbatim>\<open>Utils.Timeout\<close>,
  the callbacks waiting on the main loop and the signals delivered so far.
\<close>

record service =
  svc_id :: int
  svc_notifications :: "(int \<times> addr) list"
  svc_popups :: "(int \<times> addr) list"
  heap :: "notification list"
  cache_file :: blob
  image_files :: "(string \<times> pixbuf) list"
  cache_dir :: string
  dnd :: bool
  popup_timeout :: int
  max_popups_count :: int
  timeouts :: "(int \<times> addr) list"
  idle_queue :: "event list"
  trace :: "event list"

section \<open>Signal emission\<close>

text \<open>
  Modelled from the spec: \<^verbatim>\<open>IgnisGObject.emit\<close> and \<^verbatim>\<open>IgnisGObject.notify\<close>
  (module \<^verbatim>\<open>ignis.gobject\<close> is not among the sources). Section 4.3 of the
  specification has the construction of a replacement deferred until the close
  completes, and \<^verbatim>\<open>__Notify\<close> connects \<^verbatim>\<open>_init\<close> to \<^verbatim>\<open>"closed"\<close> only after it
  has called \<^verbatim>\<open>close()\<close>: emission hands the signal to the main loop, which
  delivers it to the handlers connected by then (\<open>Idle\<close>). The discipline is a
  parameter of every operation; \<open>Immediate\<close> is the emission of a plain
  \<^verbatim>\<open>GObject.Object\<close>, which runs the handlers before \<^verbatim>\<open>emit\<close> returns. A Python
  exception raised inside a handler does not reach the emitter: the handler stops
  and delivery goes on.
\<close>

datatype emission = Immediate | Idle

definition enqueue :: "event \<Rightarrow> service \<Rightarrow> service" where
  "enqueue ev s = s\<lparr>idle_queue := idle_queue s @ [ev]\<rparr>"

definition record_event :: "event \<Rightarrow> service \<Rightarrow> service" where
  "record_event ev s = s\<lparr>trace := trace s @ [ev]\<rparr>"

text \<open>Emission of a signal no callback of the daemon is connected to.\<close>

definition emit :: "emission \<Rightarrow> event \<Rightarrow> service \<Rightarrow> service" where
  "emit m ev s = (case m of Immediate \<Rightarrow> record_event ev s | Idle \<Rightarrow> enqueue ev s)"

section \<open>Notification\<close>

text \<open>
  \<^verbatim>\<open>Notification.__init__\<close> pairs \<^verbatim>\<open>actions[i]\<close> with \<^verbatim>\<open>actions[i + 1]\<close> for
  \<^verbatim>\<open>i\<close> in \<^verbatim>\<open>range(0, len(actions), 2)\<close>: a list of odd length raises IndexError.
\<close>

fun pair_actions :: "string list \<Rightarrow> error + (string \<times> string) list" where
  "pair_actions [] = Inr []"
| "pair_actions [x] = Inl IndexError"
| "pair_actions (x # y # zs) =
     (case pair_actions zs of Inl e \<Rightarrow> Inl e | Inr ps \<Rightarrow> Inr ((x, y) # ps))"

fun flatten_actions :: "(string \<times> string) list \<Rightarrow> string list" where
  "flatten_actions [] = []"
| "flatten_actions ((i, l) # ps) = i # l # flatten_actions ps"

text \<open>The property \<^verbatim>\<open>Notification.json\<close>.\<close>

definition json :: "notification \<Rightarrow> stored" where
  "json n =
     \<lparr>j_id = Some (n_id n), j_app_name = Some (n_app_name n), j_icon = Some (n_icon n),
      j_summary = Some (n_summary n), j_body = Some (n_body n),
      j_actions = Some (flatten_actions (n_actions n)), j_timeout = Some (n_timeout n),
      j_time = Some (n_time n), j_urgency = Some (n_urgency n), j_other = []\<rparr>"

text \<open>
  \<^verbatim>\<open>Notification(...)\<close>: the new object gets the next free reference, and
  \<^verbatim>\<open>Utils.Timeout(timeout, self.dismiss)\<close> starts its timer.
\<close>

definition new_notification ::
  "int \<Rightarrow> string \<Rightarrow> string option \<Rightarrow> string \<Rightarrow> string \<Rightarrow> string list \<Rightarrow> int \<Rightarrow> int \<Rightarrow> real \<Rightarrow> bool
     \<Rightarrow> service \<Rightarrow> addr result \<times> service" where
  "new_notification i aname ic summ bd acts urg tmo tm pop s =
     (case pair_actions acts of
        Inl e \<Rightarrow> (Raised e, s)
      | Inr ps \<Rightarrow>
          (Returned (length (heap s)),
           s\<lparr>heap := heap s @
                [\<lparr>n_id = i, n_app_name = aname, n_icon = ic, n_summary = summ, n_body = bd,
                  n_actions = ps, n_urgency = urg, n_timeout = tmo, n_time = tm,
                  n_popup = pop, on_closed = [], on_dismissed = []\<rparr>],
              timeouts := timeouts s @ [(tmo, length (heap s))]\<rparr>))"

definition set_popup :: "addr \<Rightarrow> bool \<Rightarrow> service \<Rightarrow> service" where
  "set_popup a b s = s\<lparr>heap := (heap s)[a := (heap s ! a)\<lparr>n_popup := b\<rparr>]\<rparr>"

definition connect_closed :: "addr \<Rightarrow> closed_handler \<Rightarrow> service \<Rightarrow> service" where
  "connect_closed a h s =
     s\<lparr>heap := (heap s)[a := (heap s ! a)\<lparr>on_closed := on_closed (heap s ! a) @ [h]\<rparr>]\<rparr>"

definition connect_dismissed :: "addr \<Rightarrow> dismissed_handler \<Rightarrow> service \<Rightarrow> service" where
  "connect_dismissed a h s =
     s\<lparr>heap := (heap s)[a := (heap s ! a)\<lparr>on_dismissed := on_dismissed (heap s ! a) @ [h]\<rparr>]\<rparr>"

section \<open>NotificationService\<close>

definition get_notification :: "service \<Rightarrow> int \<Rightarrow> addr option" where
  "get_notification s i = dict_get (svc_notifications s) i"

text \<open>\<^verbatim>\<open>__dismiss_popup\<close>, the callback of \<^verbatim>\<open>"dismissed"\<close>.\<close>

definition dismiss_popup :: "emission \<Rightarrow> addr \<Rightarrow> service \<Rightarrow> service" where
  "dismiss_popup m a s =
     (case dict_get (svc_popups s) (n_id (heap s ! a)) of
        None \<Rightarrow> s
      | Some _ \<Rightarrow>
          emit m Property_popups
            (s\<lparr>svc_popups := dict_pop (n_id (heap s ! a)) (svc_popups s)\<rparr>))"

definition deliver_dismissed :: "emission \<Rightarrow> addr \<Rightarrow> service \<Rightarrow> service" where
  "deliver_dismissed m a s =
     fold (\<lambda>h. case h of Dismiss_popup \<Rightarrow> dismiss_popup m a)
       (on_dismissed (heap s ! a)) (record_event (Dismissed a) s)"

definition emit_dismissed :: "emission \<Rightarrow> addr \<Rightarrow> service \<Rightarrow> service" where
  "emit_dismissed m a s =
     (case m of Immediate \<Rightarrow> deliver_dismissed m a s | Idle \<Rightarrow> enqueue (Dismissed a) s)"

text \<open>\<^verbatim>\<open>Notification.dismiss\<close>.\<close>

definition dismiss :: "emission \<Rightarrow> addr \<Rightarrow> service \<Rightarrow> service" where
  "dismiss m a s =
     (if n_popup (heap s ! a)
      then emit m (Property_popup a) (emit_dismissed m a (set_popup a False s))
      else s)"

text \<open>\<^verbatim>\<open>__sync\<close> writes the id counter and the \<^verbatim>\<open>json\<close> of every notification.\<close>

definition document :: "service \<Rightarrow> blob" where
  "document s =
     Document (Some (svc_id s))
       (Some (Entries (map (\<lambda>a. Object (json (heap s ! a))) (dict_values (svc_notifications s)))))"

definition sync :: "service \<Rightarrow> service" where
  "sync s = s\<lparr>cache_file := document s\<rparr>"

text \<open>\<^verbatim>\<open>__close_notification\<close>, a callback of \<^verbatim>\<open>"closed"\<close>.\<close>

definition close_notification :: "emission \<Rightarrow> addr \<Rightarrow> service \<Rightarrow> unit result \<times> service" where
  "close_notification m a s =
     (case dict_get (svc_notifications s) (n_id (heap s ! a)) of
        None \<Rightarrow> (Raised KeyError, s)
      | Some _ \<Rightarrow>
          (let s1 = s\<lparr>svc_notifications := dict_pop (n_id (heap s ! a)) (svc_notifications s)\<rparr>;
               s2 = (if n_popup (heap s1 ! a) then dismiss m a s1 else s1);
               s3 = sync s2;
               s4 = record_event (Bus_NotificationClosed (n_id (heap s3 ! a)) 2) s3
           in (Returned (), emit m Property_notifications s4)))"

text \<open>\<^verbatim>\<open>__add_notification\<close>.\<close>

definition add_notification :: "addr \<Rightarrow> service \<Rightarrow> service" where
  "add_notification a s =
     (let s1 = connect_closed a Close_notification s;
          s2 = connect_dismissed a Dismiss_popup s1
      in s2\<lparr>svc_notifications := dict_set (n_id (heap s2 ! a)) a (svc_notifications s2)\<rparr>)"

text \<open>
  \<^verbatim>\<open>__save_pixbuf\<close>: the arguments \<^verbatim>\<open>px_args[0]\<close> to \<^verbatim>\<open>px_args[6]\<close> are read
  (IndexError on a shorter tuple), then the image is written to \<^verbatim>\<open>save_path\<close>.
\<close>

definition save_pixbuf :: "pxval list \<Rightarrow> string \<Rightarrow> service \<Rightarrow> unit result \<times> service" where
  "save_pixbuf px_args save_path s =
     (if length px_args \<le> 6 then (Raised IndexError, s)
      else (Returned (),
            s\<lparr>image_files := dict_set save_path
                 \<lparr>px_width = px_args ! 0, px_height = px_args ! 1, px_has_alpha = px_args ! 3,
                  px_data = px_args ! 6, px_rowstride = px_args ! 2,
                  px_bits_per_sample = px_args ! 4\<rparr> (image_files s)\<rparr>))"

definition image_path :: "service \<Rightarrow> int \<Rightarrow> string" where
  "image_path s i = cache_dir s @ ''/notifications/images/'' @ str_int i"

text \<open>
  The eviction step of \<^verbatim>\<open>__init_notification\<close>:
  \<^verbatim>\<open>if len(self.popups) >= self.max_popups_count: if not self.max_popups_count == 0:
  self.popups[-1].dismiss()\<close>, where \<^verbatim>\<open>self.popups\<close> is \<^verbatim>\<open>list(self._popups.values())\<close>.
\<close>

definition evict :: "emission \<Rightarrow> service \<Rightarrow> unit result \<times> service" where
  "evict m s =
     (if int (length (dict_values (svc_popups s))) \<ge> max_popups_count s
      then (if \<not> max_popups_count s = 0
            then (case dict_values (svc_popups s) of
                    [] \<Rightarrow> (Raised IndexError, s)
                  | _ # _ \<Rightarrow> (Returned (), dismiss m (last (dict_values (svc_popups s))) s))
            else (Returned (), s))
      else (Returned (), s))"

text \<open>The part of \<^verbatim>\<open>__init_notification\<close> after the eviction step.\<close>

definition admit :: "emission \<Rightarrow> addr \<Rightarrow> service \<Rightarrow> service" where
  "admit m a s =
     (let s1 = (if n_popup (heap s ! a)
                then emit m Property_popups
                       (emit m (New_popup a)
                          (s\<lparr>svc_popups := dict_set (n_id (heap s ! a)) a (svc_popups s)\<rparr>))
                else s);
          s2 = add_notification a s1;
          s3 = sync s2;
          s4 = emit m (Notified a) s3
      in emit m Property_notifications s4)"

text \<open>
  \<^verbatim>\<open>__init_notification\<close>. The argument \<^verbatim>\<open>app_icon\<close> is a string (D-Bus type
  \<^verbatim>\<open>s\<close>), so \<^verbatim>\<open>isinstance(app_icon, str)\<close> holds; \<open>now\<close> is the value of
  \<^verbatim>\<open>datetime.now().timestamp()\<close>.
\<close>

definition resolve_icon :: "notify_args \<Rightarrow> int \<Rightarrow> service \<Rightarrow> string option result \<times> service" where
  "resolve_icon args i s =
     (case image_data (hints args) of
        None \<Rightarrow> (Returned (Some (app_icon args)), s)
      | Some px_args \<Rightarrow>
          and_then (save_pixbuf px_args (image_path s i) s)
            (\<lambda>_ s1. (Returned (Some (image_path s i)), s1)))"

definition init_notification ::
  "emission \<Rightarrow> notify_args \<Rightarrow> int \<Rightarrow> real \<Rightarrow> service \<Rightarrow> unit result \<times> service" where
  "init_notification m args i now s =
     and_then (resolve_icon args i s) (\<lambda>icon s1.
     and_then (new_notification i (app_name args) icon (summary args) (body args)
                 (actions args)
                 (case urgency_hint (hints args) of None \<Rightarrow> 1 | Some u \<Rightarrow> u)
                 (if timeout args = - 1 then popup_timeout s1 else timeout args)
                 now (\<not> dnd s1) s1) (\<lambda>notification s2.
     and_then (evict m s2) (\<lambda>_ s3.
     (Returned (), admit m notification s3))))"

text \<open>
  Delivery of \<^verbatim>\<open>"closed"\<close> to the callbacks connected to the notification, in the
  order of their connection. \<open>now\<close> is the time at which the delivery runs.
\<close>

definition run_closed_handler ::
  "emission \<Rightarrow> real \<Rightarrow> addr \<Rightarrow> closed_handler \<Rightarrow> service \<Rightarrow> service" where
  "run_closed_handler m now a h s =
     (case h of
        Close_notification \<Rightarrow> snd (close_notification m a s)
      | Init_replacement args i \<Rightarrow> snd (init_notification m args i now s))"

definition deliver_closed :: "emission \<Rightarrow> real \<Rightarrow> addr \<Rightarrow> service \<Rightarrow> service" where
  "deliver_closed m now a s =
     fold (run_closed_handler m now a) (on_closed (heap s ! a)) (record_event (Closed a) s)"

text \<open>\<^verbatim>\<open>Notification.close\<close>.\<close>

definition close :: "emission \<Rightarrow> real \<Rightarrow> addr \<Rightarrow> service \<Rightarrow> service" where
  "close m now a s =
     (case m of Immediate \<Rightarrow> deliver_closed m now a s | Idle \<Rightarrow> enqueue (Closed a) s)"

text \<open>\<^verbatim>\<open>__Notify\<close>: the result is the id it returns.\<close>

definition Notify ::
  "emission \<Rightarrow> notify_args \<Rightarrow> int \<Rightarrow> real \<Rightarrow> service \<Rightarrow> int result \<times> service" where
  "Notify m args replaces_id now s =
     (if replaces_id = 0
      then (let s1 = s\<lparr>svc_id := svc_id s + 1\<rparr> in
            and_then (init_notification m args (svc_id s1) now s1)
              (\<lambda>_ s2. (Returned (svc_id s1), s2)))
      else (case get_notification s replaces_id of
              Some old_notification \<Rightarrow>
                (Returned replaces_id,
                 connect_closed old_notification (Init_replacement args replaces_id)
                   (close m now old_notification s))
            | None \<Rightarrow>
                and_then (init_notification m args replaces_id now s)
                  (\<lambda>_ s2. (Returned replaces_id, s2))))"

text \<open>\<^verbatim>\<open>__CloseNotification\<close>.\<close>

definition CloseNotification :: "emission \<Rightarrow> real \<Rightarrow> int \<Rightarrow> service \<Rightarrow> service" where
  "CloseNotification m now i s =
     (case get_notification s i of None \<Rightarrow> s | Some notification \<Rightarrow> close m now notification s)"

text \<open>\<^verbatim>\<open>clear_all\<close> closes the notifications of \<^verbatim>\<open>list(self._notifications.values())\<close>.\<close>

definition clear_all :: "emission \<Rightarrow> real \<Rightarrow> service \<Rightarrow> service" where
  "clear_all m now s = fold (close m now) (dict_values (svc_notifications s)) s"

subsection \<open>The main loop\<close>

definition deliver :: "emission \<Rightarrow> real \<Rightarrow> event \<Rightarrow> service \<Rightarrow> service" where
  "deliver m now ev s =
     (case ev of
        Closed a \<Rightarrow> deliver_closed m now a s
      | Dismissed a \<Rightarrow> deliver_dismissed m a s
      | _ \<Rightarrow> record_event ev s)"

text \<open>One turn of the main loop runs the oldest waiting callback, if there is one.\<close>

definition idle_step :: "emission \<Rightarrow> real \<Rightarrow> service \<Rightarrow> service" where
  "idle_step m now s =
     (case idle_queue s of
        [] \<Rightarrow> s
      | ev # evs \<Rightarrow> deliver m now ev (s\<lparr>idle_queue := evs\<rparr>))"

text \<open>Successive turns of the main loop, one for each of the given times.\<close>

definition idle_steps :: "emission \<Rightarrow> real list \<Rightarrow> service \<Rightarrow> service" where
  "idle_steps m nows s = fold (idle_step m) nows s"

subsection \<open>Loading the cache file\<close>

text \<open>
  \<^verbatim>\<open>Notification(**n, popup=False, dbus=self.__dbus)\<close> raises TypeError unless the
  keys of \<^verbatim>\<open>n\<close> are exactly the nine parameters left.
\<close>

definition load_entry :: "entry \<Rightarrow> service \<Rightarrow> unit result \<times> service" where
  "load_entry e s =
     (case e of
        Not_a_mapping \<Rightarrow> (Raised TypeError, s)
      | Object n \<Rightarrow>
          (case (j_id n, j_app_name n, j_icon n, j_summary n, j_body n, j_actions n,
                 j_timeout n, j_time n, j_urgency n) of
             (Some i, Some aname, Some ic, Some summ, Some bd, Some acts, Some tmo, Some tm,
              Some urg) \<Rightarrow>
               (if j_other n \<noteq> [] then (Raised TypeError, s)
                else and_then (new_notification i aname ic summ bd acts urg tmo tm False s)
                       (\<lambda>notification s1. (Returned (), add_notification notification s1)))
           | _ \<Rightarrow> (Raised TypeError, s)))"

fun load_entries :: "entry list \<Rightarrow> service \<Rightarrow> unit result \<times> service" where
  "load_entries [] s = (Returned (), s)"
| "load_entries (e # es) s = and_then (load_entry e s) (\<lambda>_ s1. load_entries es s1)"

definition NOTIFICATIONS_EMPTY_CACHE_FILE :: blob where
  "NOTIFICATIONS_EMPTY_CACHE_FILE = Document (Some 0) (Some (Entries []))"

text \<open>The \<^verbatim>\<open>try\<close> block of \<^verbatim>\<open>__load_notifications\<close>.\<close>

definition try_load :: "service \<Rightarrow> unit result \<times> service" where
  "try_load s =
     (case cache_file s of
        Unreadable \<Rightarrow> (Raised JSONDecodeError, s)
      | Not_a_dict \<Rightarrow> (Raised AttributeError, s)
      | Document log_id log_notifications \<Rightarrow>
          and_then (case log_notifications of
                      None \<Rightarrow> (Returned (), s)
                    | Some Not_iterable \<Rightarrow> (Raised TypeError, s)
                    | Some (Entries es) \<Rightarrow> load_entries es s)
            (\<lambda>_ s1. (Returned (), s1\<lparr>svc_id := (case log_id of None \<Rightarrow> 0 | Some i \<Rightarrow> i)\<rparr>)))"

text \<open>\<^verbatim>\<open>__load_notifications\<close>.\<close>

definition load_notifications :: "service \<Rightarrow> service" where
  "load_notifications s =
     (case try_load s of
        (Returned _, s1) \<Rightarrow> s1
      | (Raised _, s1) \<Rightarrow>
          (record_event Log_warning s1)\<lparr>cache_file := NOTIFICATIONS_EMPTY_CACHE_FILE\<rparr>)"

text \<open>
  \<^verbatim>\<open>NotificationService.__init__\<close>, given the cache directory, the three options
  as the options service holds them (its defaults are \<open>False\<close>, \<open>5000\<close> and \<open>3\<close>)
  and the content of the cache file.
\<close>

definition fresh :: "string \<Rightarrow> bool \<Rightarrow> int \<Rightarrow> int \<Rightarrow> blob \<Rightarrow> service" where
  "fresh dir d t c file =
     \<lparr>svc_id = 0, svc_notifications = [], svc_popups = [], heap = [], cache_file = file,
      image_files = [], cache_dir = dir, dnd = d, popup_timeout = t, max_popups_count = c,
      timeouts = [], idle_queue = [], trace = []\<rparr>"

definition init_service :: "string \<Rightarrow> bool \<Rightarrow> int \<Rightarrow> int \<Rightarrow> blob \<Rightarrow> service" where
  "init_service dir d t c file = load_notifications (fresh dir d t c file)"

subsection \<open>Runs of the daemon\<close>

text \<open>
  What can happen to a running service: a D-Bus call of \<^verbatim>\<open>Notify\<close> or
  \<^verbatim>\<open>CloseNotification\<close>, a call of \<^verbatim>\<open>clear_all\<close>, a call of \<^verbatim>\<open>dismiss\<close>
  (by its timer) or \<^verbatim>\<open>close\<close> on a notification object, a turn of the main
  loop, and the setters of the three options. Each comes with the time at which it
  happens.
\<close>

datatype action =
    Call_Notify notify_args int
  | Call_CloseNotification int
  | Call_clear_all
  | Call_dismiss addr
  | Call_close addr
  | Main_loop
  | Set_dnd bool
  | Set_popup_timeout int
  | Set_max_popups_count int

definition step :: "emission \<Rightarrow> real \<times> action \<Rightarrow> service \<Rightarrow> service" where
  "step m x s =
     (case snd x of
        Call_Notify args replaces_id \<Rightarrow> snd (Notify m args replaces_id (fst x) s)
      | Call_CloseNotification i \<Rightarrow> CloseNotification m (fst x) i s
      | Call_clear_all \<Rightarrow> clear_all m (fst x) s
      | Call_dismiss a \<Rightarrow> (if a < length (heap s) then dismiss m a s else s)
      | Call_close a \<Rightarrow> (if a < length (heap s) then close m (fst x) a s else s)
      | Main_loop \<Rightarrow> idle_step m (fst x) s
      | Set_dnd b \<Rightarrow> s\<lparr>dnd := b\<rparr>
      | Set_popup_timeout t \<Rightarrow> s\<lparr>popup_timeout := t\<rparr>
      | Set_max_popups_count c \<Rightarrow> s\<lparr>max_popups_count := c\<rparr>)"

definition run :: "emission \<Rightarrow> (real \<times> action) list \<Rightarrow> service \<Rightarrow> service" where
  "run m xs s = fold (step m) xs s"

text \<open>The ids returned, in order, by the calls of \<^verbatim>\<open>Notify\<close> with \<^verbatim>\<open>replaces_id = 0\<close>.\<close>

fun assigned_ids :: "emission \<Rightarrow> (real \<times> action) list \<Rightarrow> service \<Rightarrow> int list" where
  "assigned_ids m [] s = []"
| "assigned_ids m (x # xs) s =
     (case snd x of
        Call_Notify args replaces_id \<Rightarrow>
          (if replaces_id = 0
           then (case fst (Notify m args replaces_id (fst x) s) of
                   Returned i \<Rightarrow> [i]
                 | Raised _ \<Rightarrow> [])
           else [])
      | _ \<Rightarrow> [])
     @ assigned_ids m xs (step m x s)"

section \<open>Notions used in the statements\<close>

text \<open>Two notification objects carry the same data: every field that is persisted agrees.\<close>

definition same_data :: "notification \<Rightarrow> notification \<Rightarrow> bool" where
  "same_data n n' \<longleftrightarrow>
     n_id n = n_id n' \<and> n_app_name n = n_app_name n' \<and> n_icon n = n_icon n'
     \<and> n_summary n = n_summary n' \<and> n_body n = n_body n' \<and> n_actions n = n_actions n'
     \<and> n_urgency n = n_urgency n' \<and> n_timeout n = n_timeout n' \<and> n_time n = n_time n'"

text \<open>A notification as \<^verbatim>\<open>__load_notifications\<close> rebuilds it from its \<^verbatim>\<open>json\<close>.\<close>

definition restored :: "notification \<Rightarrow> notification" where
  "restored n = n\<lparr>n_popup := False, on_closed := [Close_notification], on_dismissed := [Dismiss_popup]\<rparr>"

text \<open>
  The collection is a dictionary of live objects keyed by their ids, as
  \<^verbatim>\<open>self._notifications[notification.id] = notification\<close> builds it.
\<close>

definition keys_match :: "service \<Rightarrow> bool" where
  "keys_match s \<longleftrightarrow>
     distinct (map fst (svc_notifications s))
     \<and> list_all (\<lambda>(k, a). a < length (heap s) \<and> n_id (heap s ! a) = k) (svc_notifications s)"

text \<open>
  One heap evolves into another: no object disappears, the persisted data of an object
  stay as constructed, and \<^verbatim>\<open>popup\<close> is never set again once it is cleared.
\<close>

definition evolves :: "notification list \<Rightarrow> notification list \<Rightarrow> bool" where
  "evolves h h' \<longleftrightarrow>
     length h \<le> length h'
     \<and> (\<forall>a<length h. same_data (h ! a) (h' ! a) \<and> (n_popup (h' ! a) \<longrightarrow> n_popup (h ! a)))"

text \<open>
  How often a signal has been emitted: the deliveries recorded so far and the
  emissions still waiting on the main loop.
\<close>

definition emitted :: "service \<Rightarrow> event \<Rightarrow> nat" where
  "emitted s ev = count_list (trace s @ idle_queue s) ev"

text \<open>
  The condition under which \<^verbatim>\<open>__init_notification\<close> dismisses a popup:
  \<^verbatim>\<open>len(self.popups) >= self.max_popups_count\<close> and \<^verbatim>\<open>not self.max_popups_count == 0\<close>.
\<close>

definition evicting :: "service \<Rightarrow> bool" where
  "evicting s \<longleftrightarrow> max_popups_count s \<le> int (length (svc_popups s)) \<and> max_popups_count s \<noteq> 0"

text \<open>
  The object \<^verbatim>\<open>__init_notification\<close> constructs from the arguments of \<^verbatim>\<open>Notify\<close>,
  the id, the time and the options, before any callback is connected to it.
\<close>

definition built :: "notify_args \<Rightarrow> int \<Rightarrow> real \<Rightarrow> service \<Rightarrow> notification" where
  "built args i now s =
     \<lparr>n_id = i, n_app_name = app_name args,
      n_icon = Some (case image_data (hints args) of None \<Rightarrow> app_icon args | Some _ \<Rightarrow> image_path s i),
      n_summary = summary args, n_body = body args,
      n_actions = (case pair_actions (actions args) of Inl _ \<Rightarrow> [] | Inr ps \<Rightarrow> ps),
      n_urgency = (case urgency_hint (hints args) of None \<Rightarrow> 1 | Some u \<Rightarrow> u),
      n_timeout = (if timeout args = - 1 then popup_timeout s else timeout args),
      n_time = now, n_popup = \<not> dnd s, on_closed = [], on_dismissed = []\<rparr>"

text \<open>
  Under deferred emission the signals of a call wait in the main loop. The ids that
  the waiting \<^verbatim>\<open>"dismissed"\<close> signals will remove from the popups once delivered,
  and the popups that will be left then.
\<close>

fun pending_keys :: "notification list \<Rightarrow> event list \<Rightarrow> int list" where
  "pending_keys h [] = []"
| "pending_keys h (ev # q) =
     (case ev of
        Dismissed a \<Rightarrow> (if on_dismissed (h ! a) = [] then [] else [n_id (h ! a)])
      | _ \<Rightarrow> [])
     @ pending_keys h q"

definition remaining :: "notification list \<Rightarrow> event list \<Rightarrow> (int \<times> addr) list \<Rightarrow> (int \<times> addr) list" where
  "remaining h q ps = filter (\<lambda>(k, a). k \<notin> set (pending_keys h q)) ps"

text \<open>
  The number of main-loop turns that empty the queue: each callback of a
  \<^verbatim>\<open>"dismissed"\<close> signal emits one more signal.
\<close>

fun cost :: "notification list \<Rightarrow> event list \<Rightarrow> nat" where
  "cost h [] = 0"
| "cost h (ev # q) =
     (case ev of Dismissed a \<Rightarrow> Suc (length (on_dismissed (h ! a))) | _ \<Rightarrow> 1) + cost h q"

text \<open>No \<^verbatim>\<open>"closed"\<close> signal is waiting.\<close>

definition closed_free :: "event list \<Rightarrow> bool" where
  "closed_free q = list_all (\<lambda>ev. case ev of Closed _ \<Rightarrow> False | _ \<Rightarrow> True) q"

text \<open>Every waiting \<^verbatim>\<open>"dismissed"\<close> signal is that of an object allocated below the bound.\<close>

definition queue_below :: "nat \<Rightarrow> event list \<Rightarrow> bool" where
  "queue_below n q = list_all (\<lambda>ev. case ev of Dismissed a \<Rightarrow> a < n | _ \<Rightarrow> True) q"



subsection \<open>Example inputs\<close>

definition ex_stored :: stored where
  "ex_stored =
     \<lparr>j_id = Some 1, j_app_name = Some ''mail'', j_icon = Some (Some ''mail-unread''),
      j_summary = Some ''Hello'', j_body = Some ''world'',
      j_actions = Some [''default'', ''Open''], j_timeout = Some 5000, j_time = Some 1.5,
      j_urgency = Some 1, j_other = []\<rparr>"

text \<open>A cache file whose second record lacks the key \<^verbatim>\<open>"body"\<close>.\<close>

definition ex_corrupt_file :: blob where
  "ex_corrupt_file =
     Document (Some 7)
       (Some (Entries [Object ex_stored, Object (ex_stored\<lparr>j_id := Some 2, j_body := None\<rparr>)]))"

definition ex_file :: blob where
  "ex_file = Document (Some 7) (Some (Entries [Object ex_stored, Object (ex_stored\<lparr>j_id := Some 4\<rparr>)]))"

definition ex_args :: notify_args where
  "ex_args =
     \<lparr>app_name = ''app'', app_icon = '''', summary = ''Hi'', body = ''body'', actions = [],
      hints = \<lparr>urgency_hint = None, image_data = None\<rparr>, timeout = - 1\<rparr>"

definition ex_notification :: "int \<Rightarrow> real \<Rightarrow> bool \<Rightarrow> notification" where
  "ex_notification i tm p =
     \<lparr>n_id = i, n_app_name = ''app'', n_icon = Some '''', n_summary = ''Hi'', n_body = ''body'',
      n_actions = [], n_urgency = 1, n_timeout = 5000, n_time = tm, n_popup = p,
      on_closed = [Close_notification], on_dismissed = [Dismiss_popup]\<rparr>"

text \<open>
  The service after \<^verbatim>\<open>Notify("app", 0, "", "Hi", "body", [], {}, -1)\<close> at time 1 on
  a service started without a cache file, with the default options.
\<close>

definition ex_one :: service where
  "ex_one =
     \<lparr>svc_id = 1, svc_notifications = [(1, 0)], svc_popups = [(1, 0)],
      heap = [ex_notification 1 1 True],
      cache_file = Document (Some 1) (Some (Entries [Object (json (ex_notification 1 1 True))])),
      image_files = [], cache_dir = ''/c'', dnd = False, popup_timeout = 5000,
      max_popups_count = 3, timeouts = [(5000, 0)], idle_queue = [],
      trace = [Log_warning, New_popup 0, Property_popups, Notified 0, Property_notifications]\<rparr>"

text \<open>A call that names an icon and also carries image data.\<close>

definition ex_image_args :: notify_args where
  "ex_image_args =
     \<lparr>app_name = ''browser'', app_icon = ''firefox'', summary = ''Done'', body = ''Download'',
      actions = [],
      hints = \<lparr>urgency_hint = Some 2,
               image_data = Some [Px_int 1, Px_int 1, Px_int 4, Px_bool True, Px_int 8, Px_int 4,
                                  Px_bytes [0, 0, 0, 255]]\<rparr>,
      timeout = 3000\<rparr>"

text \<open>The same service after a second and a third such call, at times 2 and 3.\<close>

definition ex_two :: service where
  "ex_two =
     \<lparr>svc_id = 2, svc_notifications = [(1, 0), (2, 1)], svc_popups = [(1, 0), (2, 1)],
      heap = [ex_notification 1 1 True, ex_notification 2 2 True],
      cache_file = Document (Some 2) (Some (Entries
        [Object (json (ex_notification 1 1 True)), Object (json (ex_notification 2 2 True))])),
      image_files = [], cache_dir = ''/c'', dnd = False, popup_timeout = 5000,
      max_popups_count = 3, timeouts = [(5000, 0), (5000, 1)], idle_queue = [],
      trace = [Log_warning, New_popup 0, Property_popups, Notified 0, Property_notifications,
               New_popup 1, Property_popups, Notified 1, Property_notifications]\<rparr>"

definition ex_three :: service where
  "ex_three =
     \<lparr>svc_id = 3, svc_notifications = [(1, 0), (2, 1), (3, 2)],
      svc_popups = [(1, 0), (2, 1), (3, 2)],
      heap = [ex_notification 1 1 True, ex_notification 2 2 True, ex_notification 3 3 True],
      cache_file = Document (Some 3) (Some (Entries
        [Object (json (ex_notification 1 1 True)), Object (json (ex_notification 2 2 True)),
         Object (json (ex_notification 3 3 True))])),
      image_files = [], cache_dir = ''/c'', dnd = False, popup_timeout = 5000,
      max_popups_count = 3, timeouts = [(5000, 0), (5000, 1), (5000, 2)], idle_queue = [],
      trace = [Log_warning, New_popup 0, Property_popups, Notified 0, Property_notifications,
               New_popup 1, Property_popups, Notified 1, Property_notifications,
               New_popup 2, Property_popups, Notified 2, Property_notifications]\<rparr>"

section \<open>Basic facts\<close>

lemma and_then_Raised [simp]: "and_then (Raised e, s) f = (Raised e, s)"
  by (simp add: and_then_def)

lemma and_then_Returned [simp]: "and_then (Returned v, s) f = f v s"
  by (simp add: and_then_def)

lemma snd_and_then:
  "snd (and_then x f) = (case fst x of Raised e \<Rightarrow> snd x | Returned v \<Rightarrow> snd (f v (snd x)))"
  by (cases x) (simp add: and_then_def split: result.splits)

lemma fst_and_then:
  "fst (and_then x f) = (case fst x of Raised e \<Rightarrow> Raised e | Returned v \<Rightarrow> fst (f v (snd x)))"
  by (cases x) (simp add: and_then_def split: result.splits)

lemma enqueue_fields [simp]:
  "svc_id (enqueue ev s) = svc_id s"
  "svc_notifications (enqueue ev s) = svc_notifications s"
  "svc_popups (enqueue ev s) = svc_popups s"
  "heap (enqueue ev s) = heap s"
  "cache_file (enqueue ev s) = cache_file s"
  "image_files (enqueue ev s) = image_files s"
  "cache_dir (enqueue ev s) = cache_dir s"
  "dnd (enqueue ev s) = dnd s"
  "popup_timeout (enqueue ev s) = popup_timeout s"
  "max_popups_count (enqueue ev s) = max_popups_count s"
  "timeouts (enqueue ev s) = timeouts s"
  "idle_queue (enqueue ev s) = idle_queue s @ [ev]"
  "trace (enqueue ev s) = trace s"
  by (simp_all add: enqueue_def)

lemma record_event_fields [simp]:
  "svc_id (record_event ev s) = svc_id s"
  "svc_notifications (record_event ev s) = svc_notifications s"
  "svc_popups (record_event ev s) = svc_popups s"
  "heap (record_event ev s) = heap s"
  "cache_file (record_event ev s) = cache_file s"
  "image_files (record_event ev s) = image_files s"
  "cache_dir (record_event ev s) = cache_dir s"
  "dnd (record_event ev s) = dnd s"
  "popup_timeout (record_event ev s) = popup_timeout s"
  "max_popups_count (record_event ev s) = max_popups_count s"
  "timeouts (record_event ev s) = timeouts s"
  "idle_queue (record_event ev s) = idle_queue s"
  "trace (record_event ev s) = trace s @ [ev]"
  by (simp_all add: record_event_def)

lemma emit_fields [simp]:
  "svc_id (emit m ev s) = svc_id s"
  "svc_notifications (emit m ev s) = svc_notifications s"
  "svc_popups (emit m ev s) = svc_popups s"
  "heap (emit m ev s) = heap s"
  "cache_file (emit m ev s) = cache_file s"
  "image_files (emit m ev s) = image_files s"
  "cache_dir (emit m ev s) = cache_dir s"
  "dnd (emit m ev s) = dnd s"
  "popup_timeout (emit m ev s) = popup_timeout s"
  "max_popups_count (emit m ev s) = max_popups_count s"
  "timeouts (emit m ev s) = timeouts s"
  by (simp_all add: emit_def split: emission.splits)

lemma emit_Idle [simp]: "emit Idle ev s = enqueue ev s"
  by (simp add: emit_def)

lemma emit_Immediate [simp]: "emit Immediate ev s = record_event ev s"
  by (simp add: emit_def)

lemma set_popup_fields [simp]:
  "svc_id (set_popup a b s) = svc_id s"
  "svc_notifications (set_popup a b s) = svc_notifications s"
  "svc_popups (set_popup a b s) = svc_popups s"
  "length (heap (set_popup a b s)) = length (heap s)"
  "cache_file (set_popup a b s) = cache_file s"
  "image_files (set_popup a b s) = image_files s"
  "cache_dir (set_popup a b s) = cache_dir s"
  "dnd (set_popup a b s) = dnd s"
  "popup_timeout (set_popup a b s) = popup_timeout s"
  "max_popups_count (set_popup a b s) = max_popups_count s"
  "timeouts (set_popup a b s) = timeouts s"
  "idle_queue (set_popup a b s) = idle_queue s"
  "trace (set_popup a b s) = trace s"
  by (simp_all add: set_popup_def)

lemma sync_fields [simp]:
  "svc_id (sync s) = svc_id s"
  "svc_notifications (sync s) = svc_notifications s"
  "svc_popups (sync s) = svc_popups s"
  "heap (sync s) = heap s"
  "image_files (sync s) = image_files s"
  "cache_dir (sync s) = cache_dir s"
  "dnd (sync s) = dnd s"
  "popup_timeout (sync s) = popup_timeout s"
  "max_popups_count (sync s) = max_popups_count s"
  "timeouts (sync s) = timeouts s"
  "idle_queue (sync s) = idle_queue s"
  "trace (sync s) = trace s"
  by (simp_all add: sync_def)

lemma connect_closed_fields [simp]:
  "svc_id (connect_closed a h s) = svc_id s"
  "svc_notifications (connect_closed a h s) = svc_notifications s"
  "svc_popups (connect_closed a h s) = svc_popups s"
  "length (heap (connect_closed a h s)) = length (heap s)"
  "cache_file (connect_closed a h s) = cache_file s"
  "image_files (connect_closed a h s) = image_files s"
  "cache_dir (connect_closed a h s) = cache_dir s"
  "dnd (connect_closed a h s) = dnd s"
  "popup_timeout (connect_closed a h s) = popup_timeout s"
  "max_popups_count (connect_closed a h s) = max_popups_count s"
  "timeouts (connect_closed a h s) = timeouts s"
  "idle_queue (connect_closed a h s) = idle_queue s"
  "trace (connect_closed a h s) = trace s"
  by (simp_all add: connect_closed_def)

lemma connect_dismissed_fields [simp]:
  "svc_id (connect_dismissed a h s) = svc_id s"
  "svc_notifications (connect_dismissed a h s) = svc_notifications s"
  "svc_popups (connect_dismissed a h s) = svc_popups s"
  "length (heap (connect_dismissed a h s)) = length (heap s)"
  "cache_file (connect_dismissed a h s) = cache_file s"
  "image_files (connect_dismissed a h s) = image_files s"
  "cache_dir (connect_dismissed a h s) = cache_dir s"
  "dnd (connect_dismissed a h s) = dnd s"
  "popup_timeout (connect_dismissed a h s) = popup_timeout s"
  "max_popups_count (connect_dismissed a h s) = max_popups_count s"
  "timeouts (connect_dismissed a h s) = timeouts s"
  "idle_queue (connect_dismissed a h s) = idle_queue s"
  "trace (connect_dismissed a h s) = trace s"
  by (simp_all add: connect_dismissed_def)


lemma new_notification_frame [simp]:
  "svc_notifications (snd (new_notification i an ic su bd ac ur tmo tm p s)) = svc_notifications s"
  "svc_popups (snd (new_notification i an ic su bd ac ur tmo tm p s)) = svc_popups s"
  "cache_file (snd (new_notification i an ic su bd ac ur tmo tm p s)) = cache_file s"
  "image_files (snd (new_notification i an ic su bd ac ur tmo tm p s)) = image_files s"
  "cache_dir (snd (new_notification i an ic su bd ac ur tmo tm p s)) = cache_dir s"
  "dnd (snd (new_notification i an ic su bd ac ur tmo tm p s)) = dnd s"
  "popup_timeout (snd (new_notification i an ic su bd ac ur tmo tm p s)) = popup_timeout s"
  "max_popups_count (snd (new_notification i an ic su bd ac ur tmo tm p s)) = max_popups_count s"
  "idle_queue (snd (new_notification i an ic su bd ac ur tmo tm p s)) = idle_queue s"
  "trace (snd (new_notification i an ic su bd ac ur tmo tm p s)) = trace s"
  by (simp_all add: new_notification_def split: sum.splits)

lemma add_notification_frame [simp]:
  "svc_popups (add_notification a s) = svc_popups s"
  "length (heap (add_notification a s)) = length (heap s)"
  "cache_file (add_notification a s) = cache_file s"
  "image_files (add_notification a s) = image_files s"
  "cache_dir (add_notification a s) = cache_dir s"
  "dnd (add_notification a s) = dnd s"
  "popup_timeout (add_notification a s) = popup_timeout s"
  "max_popups_count (add_notification a s) = max_popups_count s"
  "timeouts (add_notification a s) = timeouts s"
  "idle_queue (add_notification a s) = idle_queue s"
  "trace (add_notification a s) = trace s"
  by (simp_all add: add_notification_def Let_def)

lemma fresh_fields [simp]:
  "svc_id (fresh dir d t c file) = 0"
  "svc_notifications (fresh dir d t c file) = []"
  "svc_popups (fresh dir d t c file) = []"
  "heap (fresh dir d t c file) = []"
  "cache_file (fresh dir d t c file) = file"
  "image_files (fresh dir d t c file) = []"
  "cache_dir (fresh dir d t c file) = dir"
  "dnd (fresh dir d t c file) = d"
  "popup_timeout (fresh dir d t c file) = t"
  "max_popups_count (fresh dir d t c file) = c"
  "timeouts (fresh dir d t c file) = []"
  "idle_queue (fresh dir d t c file) = []"
  "trace (fresh dir d t c file) = []"
  by (simp_all add: fresh_def)

subsection \<open>The id counter\<close>

lemma svc_id_dismiss_popup [simp]: "svc_id (dismiss_popup m a s) = svc_id s"
  by (simp add: dismiss_popup_def split: option.splits)

lemma svc_id_fold_dismiss_popup [simp]:
  "svc_id (fold (\<lambda>h. case h of Dismiss_popup \<Rightarrow> dismiss_popup m a) hs s) = svc_id s"
  by (induction hs arbitrary: s) (simp_all split: dismissed_handler.splits)

lemma svc_id_deliver_dismissed [simp]: "svc_id (deliver_dismissed m a s) = svc_id s"
  by (simp add: deliver_dismissed_def)

lemma svc_id_emit_dismissed [simp]: "svc_id (emit_dismissed m a s) = svc_id s"
  by (simp add: emit_dismissed_def split: emission.splits)

lemma svc_id_dismiss [simp]: "svc_id (dismiss m a s) = svc_id s"
  by (simp add: dismiss_def)

lemma svc_id_close_notification [simp]: "svc_id (snd (close_notification m a s)) = svc_id s"
  by (simp add: close_notification_def Let_def split: option.splits)

lemma svc_id_add_notification [simp]: "svc_id (add_notification a s) = svc_id s"
  by (simp add: add_notification_def Let_def)

lemma svc_id_new_notification [simp]:
  "svc_id (snd (new_notification i an ic su bd ac ur tmo tm p s)) = svc_id s"
  by (simp add: new_notification_def split: sum.splits)

lemma svc_id_save_pixbuf [simp]: "svc_id (snd (save_pixbuf px p s)) = svc_id s"
  by (simp add: save_pixbuf_def)

lemma svc_id_resolve_icon [simp]: "svc_id (snd (resolve_icon args i s)) = svc_id s"
  by (simp add: resolve_icon_def snd_and_then split: option.splits result.splits)

lemma svc_id_evict [simp]: "svc_id (snd (evict m s)) = svc_id s"
  by (simp add: evict_def split: list.splits)

lemma svc_id_admit [simp]: "svc_id (admit m a s) = svc_id s"
  by (simp add: admit_def Let_def)

lemma svc_id_init_notification [simp]:
  "svc_id (snd (init_notification m args i now s)) = svc_id s"
  by (simp add: init_notification_def snd_and_then split: result.splits)

lemma svc_id_run_closed_handler [simp]: "svc_id (run_closed_handler m now a h s) = svc_id s"
  by (simp add: run_closed_handler_def split: closed_handler.splits)

lemma svc_id_fold_closed [simp]:
  "svc_id (fold (run_closed_handler m now a) hs s) = svc_id s"
  by (induction hs arbitrary: s) simp_all

lemma svc_id_deliver_closed [simp]: "svc_id (deliver_closed m now a s) = svc_id s"
  by (simp add: deliver_closed_def)

lemma svc_id_close [simp]: "svc_id (close m now a s) = svc_id s"
  by (simp add: close_def split: emission.splits)

lemma svc_id_CloseNotification [simp]: "svc_id (CloseNotification m now i s) = svc_id s"
  by (simp add: CloseNotification_def split: option.splits)

lemma svc_id_fold_close [simp]: "svc_id (fold (close m now) as s) = svc_id s"
  by (induction as arbitrary: s) simp_all

lemma svc_id_clear_all [simp]: "svc_id (clear_all m now s) = svc_id s"
  by (simp add: clear_all_def)

lemma svc_id_deliver [simp]: "svc_id (deliver m now ev s) = svc_id s"
  by (simp add: deliver_def split: event.splits)

lemma svc_id_idle_step [simp]: "svc_id (idle_step m now s) = svc_id s"
  by (simp add: idle_step_def split: list.splits)

lemma svc_id_Notify:
  "svc_id (snd (Notify m args r now s)) = (if r = 0 then svc_id s + 1 else svc_id s)"
  by (simp add: Notify_def Let_def snd_and_then split: option.splits result.splits)

lemma fst_Notify_0:
  "fst (Notify m args 0 now s) = Returned i \<Longrightarrow> i = svc_id s + 1"
  by (simp add: Notify_def Let_def fst_and_then split: result.splits)

subsection \<open>Dictionaries\<close>

lemma dict_pop_absent: "map_of d k = None \<Longrightarrow> dict_pop k d = d"
  by (induction d) (auto simp: dict_pop_def)

lemma dict_pop_idem [simp]: "dict_pop k (dict_pop k d) = dict_pop k d"
  by (simp add: dict_pop_def)






lemma map_fst_dict_pop: "map fst (dict_pop k d) = filter (\<lambda>k'. k' \<noteq> k) (map fst d)"
  by (induction d) (auto simp: dict_pop_def)

lemma dict_get_dict_set: "dict_get (dict_set k v d) k' = (if k' = k then Some v else dict_get d k')"
proof (cases "map_of d k")
  case None
  show ?thesis unfolding dict_get_def dict_set_def None using None
    by (auto simp: map_add_def split: option.splits)
next
  case (Some a)
  have "map_of (map (\<lambda>(k', v'). if k' = k then (k', v) else (k', v')) d) k'
      = (if k' = k then (case map_of d k of None \<Rightarrow> None | Some _ \<Rightarrow> Some v) else map_of d k')"
    by (induction d) auto
  then show ?thesis unfolding dict_get_def dict_set_def Some by simp
qed


subsection \<open>What each operation leaves unchanged\<close>

lemma popup_False_id: "\<not> n_popup r \<Longrightarrow> r\<lparr>n_popup := False\<rparr> = r"
  by simp

lemma heap_set_popup: "heap (set_popup a b s) = (heap s)[a := (heap s ! a)\<lparr>n_popup := b\<rparr>]"
  by (simp add: set_popup_def)

lemma heap_connect_closed:
  "heap (connect_closed a h s) = (heap s)[a := (heap s ! a)\<lparr>on_closed := on_closed (heap s ! a) @ [h]\<rparr>]"
  by (simp add: connect_closed_def)

lemma heap_connect_dismissed:
  "heap (connect_dismissed a h s) = (heap s)[a := (heap s ! a)\<lparr>on_dismissed := on_dismissed (heap s ! a) @ [h]\<rparr>]"
  by (simp add: connect_dismissed_def)

lemma dismiss_popup_frame [simp]:
  "svc_notifications (dismiss_popup m a s) = svc_notifications s"
  "heap (dismiss_popup m a s) = heap s"
  "cache_file (dismiss_popup m a s) = cache_file s"
  "image_files (dismiss_popup m a s) = image_files s"
  "timeouts (dismiss_popup m a s) = timeouts s"
  "cache_dir (dismiss_popup m a s) = cache_dir s"
  "dnd (dismiss_popup m a s) = dnd s"
  "popup_timeout (dismiss_popup m a s) = popup_timeout s"
  "max_popups_count (dismiss_popup m a s) = max_popups_count s"
  by (simp_all add: dismiss_popup_def split: option.splits)

lemma svc_popups_dismiss_popup [simp]:
  "svc_popups (dismiss_popup m a s) = dict_pop (n_id (heap s ! a)) (svc_popups s)"
  by (simp add: dismiss_popup_def dict_get_def dict_pop_absent split: option.splits)

lemma fold_dismiss_popup_frame [simp]:
  "svc_notifications (fold (\<lambda>h. case h of Dismiss_popup \<Rightarrow> dismiss_popup m a) hs s) = svc_notifications s"
  "heap (fold (\<lambda>h. case h of Dismiss_popup \<Rightarrow> dismiss_popup m a) hs s) = heap s"
  "cache_file (fold (\<lambda>h. case h of Dismiss_popup \<Rightarrow> dismiss_popup m a) hs s) = cache_file s"
  "image_files (fold (\<lambda>h. case h of Dismiss_popup \<Rightarrow> dismiss_popup m a) hs s) = image_files s"
  "timeouts (fold (\<lambda>h. case h of Dismiss_popup \<Rightarrow> dismiss_popup m a) hs s) = timeouts s"
  "cache_dir (fold (\<lambda>h. case h of Dismiss_popup \<Rightarrow> dismiss_popup m a) hs s) = cache_dir s"
  "dnd (fold (\<lambda>h. case h of Dismiss_popup \<Rightarrow> dismiss_popup m a) hs s) = dnd s"
  "popup_timeout (fold (\<lambda>h. case h of Dismiss_popup \<Rightarrow> dismiss_popup m a) hs s) = popup_timeout s"
  "max_popups_count (fold (\<lambda>h. case h of Dismiss_popup \<Rightarrow> dismiss_popup m a) hs s) = max_popups_count s"
  by (induction hs arbitrary: s; simp split: dismissed_handler.splits)+

lemma deliver_dismissed_frame [simp]:
  "svc_notifications (deliver_dismissed m a s) = svc_notifications s"
  "heap (deliver_dismissed m a s) = heap s"
  "cache_file (deliver_dismissed m a s) = cache_file s"
  "image_files (deliver_dismissed m a s) = image_files s"
  "timeouts (deliver_dismissed m a s) = timeouts s"
  "cache_dir (deliver_dismissed m a s) = cache_dir s"
  "dnd (deliver_dismissed m a s) = dnd s"
  "popup_timeout (deliver_dismissed m a s) = popup_timeout s"
  "max_popups_count (deliver_dismissed m a s) = max_popups_count s"
  by (simp_all add: deliver_dismissed_def)

lemma emit_dismissed_frame [simp]:
  "svc_notifications (emit_dismissed m a s) = svc_notifications s"
  "heap (emit_dismissed m a s) = heap s"
  "cache_file (emit_dismissed m a s) = cache_file s"
  "image_files (emit_dismissed m a s) = image_files s"
  "timeouts (emit_dismissed m a s) = timeouts s"
  "cache_dir (emit_dismissed m a s) = cache_dir s"
  "dnd (emit_dismissed m a s) = dnd s"
  "popup_timeout (emit_dismissed m a s) = popup_timeout s"
  "max_popups_count (emit_dismissed m a s) = max_popups_count s"
  by (simp_all add: emit_dismissed_def split: emission.splits)

lemma dismiss_frame [simp]:
  "svc_notifications (dismiss m a s) = svc_notifications s"
  "cache_file (dismiss m a s) = cache_file s"
  "image_files (dismiss m a s) = image_files s"
  "timeouts (dismiss m a s) = timeouts s"
  "cache_dir (dismiss m a s) = cache_dir s"
  "dnd (dismiss m a s) = dnd s"
  "popup_timeout (dismiss m a s) = popup_timeout s"
  "max_popups_count (dismiss m a s) = max_popups_count s"
  by (simp_all add: dismiss_def)

lemma heap_dismiss: "heap (dismiss m a s) = (heap s)[a := (heap s ! a)\<lparr>n_popup := False\<rparr>]"
  by (simp add: dismiss_def heap_set_popup popup_False_id)

lemma length_heap_dismiss [simp]: "length (heap (dismiss m a s)) = length (heap s)"
  by (simp add: heap_dismiss)

lemma close_notification_frame [simp]:
  "image_files (snd (close_notification m a s)) = image_files s"
  "timeouts (snd (close_notification m a s)) = timeouts s"
  "cache_dir (snd (close_notification m a s)) = cache_dir s"
  "dnd (snd (close_notification m a s)) = dnd s"
  "popup_timeout (snd (close_notification m a s)) = popup_timeout s"
  "max_popups_count (snd (close_notification m a s)) = max_popups_count s"
  by (simp_all add: close_notification_def Let_def split: option.splits)

lemma length_heap_close_notification [simp]:
  "length (heap (snd (close_notification m a s))) = length (heap s)"
  by (simp add: close_notification_def Let_def split: option.splits)

lemma save_pixbuf_frame [simp]:
  "svc_notifications (snd (save_pixbuf px p s)) = svc_notifications s"
  "svc_popups (snd (save_pixbuf px p s)) = svc_popups s"
  "heap (snd (save_pixbuf px p s)) = heap s"
  "cache_file (snd (save_pixbuf px p s)) = cache_file s"
  "timeouts (snd (save_pixbuf px p s)) = timeouts s"
  "idle_queue (snd (save_pixbuf px p s)) = idle_queue s"
  "trace (snd (save_pixbuf px p s)) = trace s"
  "cache_dir (snd (save_pixbuf px p s)) = cache_dir s"
  "dnd (snd (save_pixbuf px p s)) = dnd s"
  "popup_timeout (snd (save_pixbuf px p s)) = popup_timeout s"
  "max_popups_count (snd (save_pixbuf px p s)) = max_popups_count s"
  by (simp_all add: save_pixbuf_def)

lemma resolve_icon_frame [simp]:
  "svc_notifications (snd (resolve_icon args i s)) = svc_notifications s"
  "svc_popups (snd (resolve_icon args i s)) = svc_popups s"
  "heap (snd (resolve_icon args i s)) = heap s"
  "cache_file (snd (resolve_icon args i s)) = cache_file s"
  "timeouts (snd (resolve_icon args i s)) = timeouts s"
  "idle_queue (snd (resolve_icon args i s)) = idle_queue s"
  "trace (snd (resolve_icon args i s)) = trace s"
  "cache_dir (snd (resolve_icon args i s)) = cache_dir s"
  "dnd (snd (resolve_icon args i s)) = dnd s"
  "popup_timeout (snd (resolve_icon args i s)) = popup_timeout s"
  "max_popups_count (snd (resolve_icon args i s)) = max_popups_count s"
  by (simp_all add: resolve_icon_def snd_and_then split: option.splits result.splits)

lemma evict_frame [simp]:
  "svc_notifications (snd (evict m s)) = svc_notifications s"
  "cache_file (snd (evict m s)) = cache_file s"
  "image_files (snd (evict m s)) = image_files s"
  "timeouts (snd (evict m s)) = timeouts s"
  "cache_dir (snd (evict m s)) = cache_dir s"
  "dnd (snd (evict m s)) = dnd s"
  "popup_timeout (snd (evict m s)) = popup_timeout s"
  "max_popups_count (snd (evict m s)) = max_popups_count s"
  by (simp_all add: evict_def split: list.splits)

lemma length_heap_evict [simp]: "length (heap (snd (evict m s))) = length (heap s)"
  by (simp add: evict_def split: list.splits)

lemma admit_frame [simp]:
  "image_files (admit m a s) = image_files s"
  "timeouts (admit m a s) = timeouts s"
  "cache_dir (admit m a s) = cache_dir s"
  "dnd (admit m a s) = dnd s"
  "popup_timeout (admit m a s) = popup_timeout s"
  "max_popups_count (admit m a s) = max_popups_count s"
  by (simp_all add: admit_def Let_def)

lemma length_heap_admit [simp]: "length (heap (admit m a s)) = length (heap s)"
  by (simp add: admit_def Let_def)

lemma init_notification_frame [simp]:
  "cache_dir (snd (init_notification m args i now s)) = cache_dir s"
  "dnd (snd (init_notification m args i now s)) = dnd s"
  "popup_timeout (snd (init_notification m args i now s)) = popup_timeout s"
  "max_popups_count (snd (init_notification m args i now s)) = max_popups_count s"
  by (simp_all add: init_notification_def snd_and_then split: result.splits)

subsection \<open>Objects are never removed or rewritten\<close>

lemma same_data_refl [simp]: "same_data n n"
  by (simp add: same_data_def)

lemma same_data_trans: "same_data n n' \<Longrightarrow> same_data n' n'' \<Longrightarrow> same_data n n''"
  by (simp add: same_data_def)

lemma evolves_refl [simp]: "evolves h h"
  by (simp add: evolves_def)

lemma evolves_trans: "evolves h h' \<Longrightarrow> evolves h' h'' \<Longrightarrow> evolves h h''"
  unfolding evolves_def by (meson le_trans less_le_trans same_data_trans)

lemma evolves_append: "evolves h h' \<Longrightarrow> evolves h (h' @ xs)"
  by (auto simp: evolves_def nth_append)

lemma evolves_update:
  assumes "evolves h h'" and "same_data (h' ! a) r" and "n_popup r \<longrightarrow> n_popup (h' ! a)"
  shows "evolves h (h'[a := r])"
proof -
  have "same_data (h' ! b) (h'[a := r] ! b) \<and> (n_popup (h'[a := r] ! b) \<longrightarrow> n_popup (h' ! b))"
    if "b < length h'" for b
    using that assms(2,3) by (cases "b = a") simp_all
  then have "evolves h' (h'[a := r])"
    by (simp add: evolves_def)
  with assms(1) show ?thesis by (rule evolves_trans)
qed

lemma evolves_set_popup [simp]: "evolves h (heap s) \<Longrightarrow> evolves h (heap (set_popup a False s))"
  by (simp add: heap_set_popup evolves_update same_data_def)

lemma evolves_connect_closed [simp]: "evolves h (heap s) \<Longrightarrow> evolves h (heap (connect_closed a x s))"
  by (simp add: heap_connect_closed evolves_update same_data_def)

lemma evolves_connect_dismissed [simp]:
  "evolves h (heap s) \<Longrightarrow> evolves h (heap (connect_dismissed a x s))"
  by (simp add: heap_connect_dismissed evolves_update same_data_def)

lemma evolves_dismiss [simp]: "evolves h (heap s) \<Longrightarrow> evolves h (heap (dismiss m a s))"
  by (simp add: heap_dismiss evolves_update same_data_def)

lemma evolves_close_notification [simp]:
  "evolves h (heap s) \<Longrightarrow> evolves h (heap (snd (close_notification m a s)))"
  by (simp add: close_notification_def Let_def split: option.splits)

lemma evolves_add_notification [simp]:
  "evolves h (heap s) \<Longrightarrow> evolves h (heap (add_notification a s))"
  by (simp add: add_notification_def Let_def)

lemma evolves_new_notification [simp]:
  "evolves h (heap s) \<Longrightarrow> evolves h (heap (snd (new_notification i an ic su bd ac ur tmo tm p s)))"
  by (simp add: new_notification_def evolves_append split: sum.splits)

lemma evolves_evict [simp]: "evolves h (heap s) \<Longrightarrow> evolves h (heap (snd (evict m s)))"
  by (simp add: evict_def split: list.splits)

lemma evolves_admit [simp]: "evolves h (heap s) \<Longrightarrow> evolves h (heap (admit m a s))"
  by (simp add: admit_def Let_def)

lemma evolves_init_notification [simp]:
  "evolves h (heap s) \<Longrightarrow> evolves h (heap (snd (init_notification m args i now s)))"
  by (simp add: init_notification_def snd_and_then split: result.splits)

lemma evolves_run_closed_handler [simp]:
  "evolves h (heap s) \<Longrightarrow> evolves h (heap (run_closed_handler m now a x s))"
  by (simp add: run_closed_handler_def split: closed_handler.splits)

lemma evolves_fold_closed [simp]:
  "evolves h (heap s) \<Longrightarrow> evolves h (heap (fold (run_closed_handler m now a) xs s))"
  by (induction xs arbitrary: s) simp_all

lemma evolves_deliver_closed [simp]:
  "evolves h (heap s) \<Longrightarrow> evolves h (heap (deliver_closed m now a s))"
  by (simp add: deliver_closed_def)

lemma evolves_close [simp]: "evolves h (heap s) \<Longrightarrow> evolves h (heap (close m now a s))"
  by (simp add: close_def split: emission.splits)

lemma evolves_Notify [simp]:
  "evolves h (heap s) \<Longrightarrow> evolves h (heap (snd (Notify m args r now s)))"
  by (simp add: Notify_def Let_def snd_and_then split: option.splits result.splits)

lemma evolves_CloseNotification [simp]:
  "evolves h (heap s) \<Longrightarrow> evolves h (heap (CloseNotification m now i s))"
  by (simp add: CloseNotification_def split: option.splits)

lemma evolves_fold_close [simp]:
  "evolves h (heap s) \<Longrightarrow> evolves h (heap (fold (close m now) as s))"
  by (induction as arbitrary: s) simp_all

lemma evolves_clear_all [simp]: "evolves h (heap s) \<Longrightarrow> evolves h (heap (clear_all m now s))"
  by (simp add: clear_all_def)

lemma evolves_deliver [simp]: "evolves h (heap s) \<Longrightarrow> evolves h (heap (deliver m now ev s))"
  by (simp add: deliver_def split: event.splits)

lemma evolves_idle_step [simp]: "evolves h (heap s) \<Longrightarrow> evolves h (heap (idle_step m now s))"
  by (simp add: idle_step_def split: list.splits)

lemma evolves_step [simp]: "evolves h (heap s) \<Longrightarrow> evolves h (heap (step m x s))"
  by (simp add: step_def split: action.splits)

lemma evolves_run: "evolves h (heap s) \<Longrightarrow> evolves h (heap (run m xs s))"
  unfolding run_def by (induction xs arbitrary: s) simp_all

subsection \<open>What \<^verbatim>\<open>__init_notification\<close> builds\<close>

lemma dict_values_last: "d \<noteq> [] \<Longrightarrow> last (dict_values d) = snd (last d)"
  by (simp add: dict_values_def last_map)

lemma evict_eq:
  "evict m s =
     (if evicting s
      then (if svc_popups s = [] then (Raised IndexError, s)
            else (Returned (), dismiss m (snd (last (svc_popups s))) s))
      else (Returned (), s))"
  by (auto simp: evict_def evicting_def dict_values_def last_map split: list.splits)

lemma image_path_frame [simp]:
  "image_path (s\<lparr>svc_id := x\<rparr>) i = image_path s i"
  by (simp add: image_path_def)

lemma resolve_icon_eq:
  "resolve_icon args i s =
     (case image_data (hints args) of
        None \<Rightarrow> (Returned (Some (app_icon args)), s)
      | Some px \<Rightarrow>
          (if length px \<le> 6 then (Raised IndexError, s)
           else (Returned (Some (image_path s i)),
                 s\<lparr>image_files := dict_set (image_path s i)
                      \<lparr>px_width = px ! 0, px_height = px ! 1, px_has_alpha = px ! 3,
                       px_data = px ! 6, px_rowstride = px ! 2, px_bits_per_sample = px ! 4\<rparr>
                      (image_files s)\<rparr>)))"
  by (simp add: resolve_icon_def save_pixbuf_def split: option.splits)

lemma fst_resolve_icon:
  "fst (resolve_icon args i s) = Returned ic \<Longrightarrow>
   ic = Some (case image_data (hints args) of None \<Rightarrow> app_icon args | Some _ \<Rightarrow> image_path s i)"
  by (auto simp: resolve_icon_eq split: option.splits if_splits)

lemma new_notification_Returned:
  "fst (new_notification i an ic su bd ac ur tmo tm p s) = Returned a \<Longrightarrow>
   a = length (heap s) \<and> (\<exists>ps. pair_actions ac = Inr ps \<and>
   heap (snd (new_notification i an ic su bd ac ur tmo tm p s)) = heap s @
     [\<lparr>n_id = i, n_app_name = an, n_icon = ic, n_summary = su, n_body = bd, n_actions = ps,
       n_urgency = ur, n_timeout = tmo, n_time = tm, n_popup = p, on_closed = [], on_dismissed = []\<rparr>])"
  by (auto simp: new_notification_def split: sum.splits)

lemma heap_add_notification:
  "a < length (heap s) \<Longrightarrow>
   heap (add_notification a s) = (heap s)[a := (heap s ! a)
      \<lparr>on_closed := on_closed (heap s ! a) @ [Close_notification],
       on_dismissed := on_dismissed (heap s ! a) @ [Dismiss_popup]\<rparr>]"
  by (simp add: add_notification_def Let_def heap_connect_closed heap_connect_dismissed)

lemma svc_notifications_add_notification:
  "a < length (heap s) \<Longrightarrow>
   svc_notifications (add_notification a s) = dict_set (n_id (heap s ! a)) a (svc_notifications s)"
  by (simp add: add_notification_def Let_def heap_connect_closed heap_connect_dismissed)

lemma heap_admit:
  "a < length (heap s) \<Longrightarrow>
   heap (admit m a s) = (heap s)[a := (heap s ! a)
      \<lparr>on_closed := on_closed (heap s ! a) @ [Close_notification],
       on_dismissed := on_dismissed (heap s ! a) @ [Dismiss_popup]\<rparr>]"
  by (simp add: admit_def Let_def heap_add_notification)

lemma svc_notifications_admit:
  "a < length (heap s) \<Longrightarrow>
   svc_notifications (admit m a s) = dict_set (n_id (heap s ! a)) a (svc_notifications s)"
  by (simp add: admit_def Let_def svc_notifications_add_notification)


lemma same_data_flag [simp]: "same_data (n\<lparr>n_popup := b\<rparr>) n' = same_data n n'"
  by (simp add: same_data_def)

lemma same_data_handlers [simp]:
  "same_data (n\<lparr>on_closed := x, on_dismissed := y\<rparr>) n' = same_data n n'"
  by (simp add: same_data_def)

lemma same_data_nth_flag:
  "same_data ((h[b := (h ! b)\<lparr>n_popup := False\<rparr>]) ! c) n = same_data (h ! c) n"
  by (cases "b = c"; cases "b < length h") (simp_all add: list_update_beyond)

lemma same_data_nth_heap_dismiss [simp]:
  "same_data (heap (dismiss m b s) ! c) n = same_data (heap s ! c) n"
  by (simp add: heap_dismiss same_data_nth_flag)

lemma same_data_nth_heap_evict [simp]:
  "same_data (heap (snd (evict m s)) ! c) n = same_data (heap s ! c) n"
  by (simp add: evict_eq)

lemma init_notification_ReturnedE:
  assumes "fst (init_notification m args i now s) = Returned u"
  obtains ic a s2 where
    "fst (resolve_icon args i s) = Returned ic"
    "fst (new_notification i (app_name args) ic (summary args) (body args) (actions args)
            (case urgency_hint (hints args) of None \<Rightarrow> 1 | Some u \<Rightarrow> u)
            (if timeout args = - 1 then popup_timeout s else timeout args)
            now (\<not> dnd s) (snd (resolve_icon args i s))) = Returned a"
    "s2 = snd (new_notification i (app_name args) ic (summary args) (body args) (actions args)
            (case urgency_hint (hints args) of None \<Rightarrow> 1 | Some u \<Rightarrow> u)
            (if timeout args = - 1 then popup_timeout s else timeout args)
            now (\<not> dnd s) (snd (resolve_icon args i s)))"
    "fst (evict m s2) = Returned ()"
    "snd (init_notification m args i now s) = admit m a (snd (evict m s2))"
  using assms
  by (auto simp: init_notification_def fst_and_then snd_and_then split: result.splits cong: if_cong)

lemma init_notification_Returned:
  assumes "fst (init_notification m args i now s) = Returned u"
  shows "length (heap (snd (init_notification m args i now s))) = Suc (length (heap s))"
    and "same_data (heap (snd (init_notification m args i now s)) ! length (heap s)) (built args i now s)"
    and "get_notification (snd (init_notification m args i now s)) i = Some (length (heap s))"
    and "image_files (snd (init_notification m args i now s)) = image_files (snd (resolve_icon args i s))"
proof -
  from assms obtain ic a s2 where
    ic: "fst (resolve_icon args i s) = Returned ic"
    and a: "fst (new_notification i (app_name args) ic (summary args) (body args) (actions args)
            (case urgency_hint (hints args) of None \<Rightarrow> 1 | Some u \<Rightarrow> u)
            (if timeout args = - 1 then popup_timeout s else timeout args)
            now (\<not> dnd s) (snd (resolve_icon args i s))) = Returned a"
    and s2: "s2 = snd (new_notification i (app_name args) ic (summary args) (body args) (actions args)
            (case urgency_hint (hints args) of None \<Rightarrow> 1 | Some u \<Rightarrow> u)
            (if timeout args = - 1 then popup_timeout s else timeout args)
            now (\<not> dnd s) (snd (resolve_icon args i s)))"
    and final: "snd (init_notification m args i now s) = admit m a (snd (evict m s2))"
    by (rule init_notification_ReturnedE)
  define s3 where "s3 = snd (evict m s2)"
  have icon: "ic = Some (case image_data (hints args) of None \<Rightarrow> app_icon args | Some _ \<Rightarrow> image_path s i)"
    using ic by (rule fst_resolve_icon)
  from new_notification_Returned [OF a]
  obtain ps where a_eq: "a = length (heap s)" and ps: "pair_actions (actions args) = Inr ps"
    and h2: "heap s2 = heap s @
     [\<lparr>n_id = i, n_app_name = app_name args, n_icon = ic, n_summary = summary args,
       n_body = body args, n_actions = ps,
       n_urgency = (case urgency_hint (hints args) of None \<Rightarrow> 1 | Some u \<Rightarrow> u),
       n_timeout = (if timeout args = - 1 then popup_timeout s else timeout args),
       n_time = now, n_popup = \<not> dnd s, on_closed = [], on_dismissed = []\<rparr>]"
    by (auto simp: s2)
  have b2: "same_data (heap s2 ! a) (built args i now s)"
    by (simp add: h2 a_eq same_data_def built_def icon ps)
  have len3: "length (heap s3) = Suc (length (heap s))"
    by (simp add: s3_def h2)
  have b3: "same_data (heap s3 ! a) (built args i now s)"
    using b2 by (simp add: s3_def)
  have lt: "a < length (heap s3)" by (simp add: len3 a_eq)
  show "length (heap (snd (init_notification m args i now s))) = Suc (length (heap s))"
    by (simp add: final len3 s3_def [symmetric])
  show "same_data (heap (snd (init_notification m args i now s)) ! length (heap s)) (built args i now s)"
    using b3 lt by (simp add: final heap_admit a_eq [symmetric] s3_def [symmetric])
  have "n_id (heap s3 ! a) = i"
    using b3 by (simp add: same_data_def built_def)
  then show "get_notification (snd (init_notification m args i now s)) i = Some (length (heap s))"
    using lt by (simp add: final svc_notifications_admit get_notification_def dict_get_dict_set a_eq s3_def [symmetric])
  show "image_files (snd (init_notification m args i now s)) = image_files (snd (resolve_icon args i s))"
    by (simp add: final s2)
qed

lemma str_int_1 [simp]: "str_int 1 = ''1''"
  by (simp add: str_int_def digit_char_def)

subsection \<open>The example state is reachable\<close>

lemmas eval_defs = Notify_def init_notification_def resolve_icon_def new_notification_def
      evict_def admit_def add_notification_def connect_closed_def connect_dismissed_def
      sync_def document_def json_def dict_set_def dict_values_def dict_get_def dict_pop_def record_event_def
      enqueue_def dismiss_def emit_dismissed_def deliver_dismissed_def dismiss_popup_def set_popup_def
      ex_args_def ex_notification_def Let_def

lemma ex_one_reached:
  "snd (Notify Immediate ex_args 0 1 (init_service ''/c'' False 5000 3 Unreadable)) = ex_one"
  by (simp add: ex_one_def ex_args_def ex_notification_def init_service_def load_notifications_def
      try_load_def fresh_def Notify_def init_notification_def resolve_icon_def new_notification_def
      evict_def admit_def add_notification_def connect_closed_def connect_dismissed_def
      sync_def document_def json_def dict_set_def dict_values_def record_event_def
      NOTIFICATIONS_EMPTY_CACHE_FILE_def Let_def)

section \<open>Identifiers assigned by Notify\<close>

lemma svc_id_step: "svc_id s \<le> svc_id (step m x s)"
  by (simp add: step_def svc_id_Notify split: action.splits)

lemma svc_id_step_Notify_0:
  "svc_id (step m (now, Call_Notify args 0) s) = svc_id s + 1"
  by (simp add: step_def svc_id_Notify)

lemma svc_id_run: "svc_id s \<le> svc_id (run m xs s)"
proof (induction xs arbitrary: s)
  case Nil
  then show ?case by (simp add: run_def)
next
  case (Cons x xs)
  have "svc_id s \<le> svc_id (step m x s)" by (rule svc_id_step)
  also have "\<dots> \<le> svc_id (run m xs (step m x s))" by (rule Cons.IH)
  finally show ?case by (simp add: run_def)
qed

lemma assigned_ids_above:
  "list_all (\<lambda>i. svc_id s < i) (assigned_ids m xs s)"
proof (induction xs arbitrary: s)
  case Nil
  then show ?case by simp
next
  case (Cons x xs)
  have tail: "list_all (\<lambda>i. svc_id s < i) (assigned_ids m xs (step m x s))"
  proof -
    have "list_all (\<lambda>i. svc_id (step m x s) < i) (assigned_ids m xs (step m x s))"
      by (rule Cons.IH)
    moreover have "svc_id s \<le> svc_id (step m x s)" by (rule svc_id_step)
    ultimately show ?thesis by (auto simp: list_all_iff)
  qed
  show ?case
    using tail by (auto split: action.splits result.splits dest: fst_Notify_0)
qed

lemma assigned_ids_sorted: "sorted_wrt (<) (assigned_ids m xs s)"
proof (induction xs arbitrary: s)
  case Nil
  then show ?case by simp
next
  case (Cons x xs)
  obtain now act where x: "x = (now, act)" by (cases x)
  have IH: "sorted_wrt (<) (assigned_ids m xs (step m x s))" by (rule Cons.IH)
  show ?case
  proof (cases "\<exists>args i. act = Call_Notify args 0 \<and> fst (Notify m args 0 now s) = Returned i")
    case True
    then obtain args i where act: "act = Call_Notify args 0"
      and ret: "fst (Notify m args 0 now s) = Returned i" by blast
    have i: "i = svc_id s + 1" using ret by (rule fst_Notify_0)
    have "list_all (\<lambda>j. svc_id (step m x s) < j) (assigned_ids m xs (step m x s))"
      by (rule assigned_ids_above)
    then have "list_all (\<lambda>j. i < j) (assigned_ids m xs (step m x s))"
      by (simp add: x act i svc_id_step_Notify_0)
    then show ?thesis using IH ret by (simp add: x act list_all_iff)
  next
    case False
    then have "assigned_ids m (x # xs) s = assigned_ids m xs (step m x s)"
      by (auto simp: x split: action.splits result.splits)
    then show ?thesis using IH by simp
  qed
qed

lemma sorted_wrt_less_distinct: "sorted_wrt (<) (xs :: int list) \<Longrightarrow> distinct xs"
  by (induction xs) auto

text \<open>
  C6. In every run of the daemon, under either emission discipline, the ids returned
  by the calls of \<^verbatim>\<open>Notify\<close> with \<^verbatim>\<open>replaces_id = 0\<close> are strictly increasing,
  so none is returned twice; each is above the id counter the run started with, and
  the id counter at the end of the run is not below the one at its start.
\<close>

theorem assigned_ids_increasing:
  "sorted_wrt (<) (assigned_ids m xs s) \<and> distinct (assigned_ids m xs s)
   \<and> list_all (\<lambda>i. svc_id s < i) (assigned_ids m xs s)
   \<and> svc_id s \<le> svc_id (run m xs s)"
proof -
  have "sorted_wrt (<) (assigned_ids m xs s)" by (rule assigned_ids_sorted)
  moreover from this have "distinct (assigned_ids m xs s)"
    by (rule sorted_wrt_less_distinct)
  ultimately show ?thesis
    by (simp add: assigned_ids_above svc_id_run)
qed


section \<open>The cache file\<close>

lemma pair_actions_flatten [simp]: "pair_actions (flatten_actions ps) = Inr ps"
  by (induction ps rule: flatten_actions.induct) simp_all

lemma load_entry_json:
  "fst (load_entry (Object (json n)) s) = Returned ()"
  "heap (snd (load_entry (Object (json n)) s)) = heap s @ [restored n]"
  "svc_notifications (snd (load_entry (Object (json n)) s))
     = dict_set (n_id n) (length (heap s)) (svc_notifications s)"
  by (simp_all add: load_entry_def json_def new_notification_def add_notification_def
      connect_closed_def connect_dismissed_def Let_def restored_def)

lemma dict_set_fresh: "k \<notin> fst ` set d \<Longrightarrow> dict_set k v d = d @ [(k, v)]"
  by (simp add: dict_set_def map_of_eq_None_iff split: option.splits)

lemma load_entries_json:
  "distinct (map n_id ns) \<Longrightarrow> set (map n_id ns) \<inter> fst ` set (svc_notifications s) = {} \<Longrightarrow>
   fst (load_entries (map (\<lambda>n. Object (json n)) ns) s) = Returned ()
   \<and> heap (snd (load_entries (map (\<lambda>n. Object (json n)) ns) s)) = heap s @ map restored ns
   \<and> svc_notifications (snd (load_entries (map (\<lambda>n. Object (json n)) ns) s))
       = svc_notifications s @ zip (map n_id ns) [length (heap s) ..< length (heap s) + length ns]"
proof (induction ns arbitrary: s)
  case Nil
  then show ?case by simp
next
  case (Cons n ns)
  let ?s1 = "snd (load_entry (Object (json n)) s)"
  have fresh: "n_id n \<notin> fst ` set (svc_notifications s)"
    using Cons.prems(2) by auto
  have set1: "svc_notifications ?s1 = svc_notifications s @ [(n_id n, length (heap s))]"
    using fresh by (simp add: dict_set_fresh load_entry_json)
  have d: "distinct (map n_id ns)" using Cons.prems(1) by simp
  have disj: "set (map n_id ns) \<inter> fst ` set (svc_notifications ?s1) = {}"
    using Cons.prems by (auto simp: set1)
  have step: "load_entries (map (\<lambda>n. Object (json n)) (n # ns)) s
      = load_entries (map (\<lambda>n. Object (json n)) ns) ?s1"
    using load_entry_json(1) [of n s]
    by (cases "load_entry (Object (json n)) s") simp
  show ?case
    using Cons.IH [OF d disj] fresh
    by (simp only: step) (simp add: load_entry_json dict_set_fresh upt_conv_Cons del: upt_Suc)
qed

lemma load_entry_frame [simp]:
  "svc_id (snd (load_entry e s)) = svc_id s"
  "svc_popups (snd (load_entry e s)) = svc_popups s"
  "cache_file (snd (load_entry e s)) = cache_file s"
  "image_files (snd (load_entry e s)) = image_files s"
  "cache_dir (snd (load_entry e s)) = cache_dir s"
  "dnd (snd (load_entry e s)) = dnd s"
  "popup_timeout (snd (load_entry e s)) = popup_timeout s"
  "max_popups_count (snd (load_entry e s)) = max_popups_count s"
  "idle_queue (snd (load_entry e s)) = idle_queue s"
  "trace (snd (load_entry e s)) = trace s"
  by (simp_all add: load_entry_def snd_and_then split: entry.splits option.splits result.splits)

lemma load_entries_frame [simp]:
  "svc_id (snd (load_entries es s)) = svc_id s"
  "svc_popups (snd (load_entries es s)) = svc_popups s"
  "cache_file (snd (load_entries es s)) = cache_file s"
  "image_files (snd (load_entries es s)) = image_files s"
  "cache_dir (snd (load_entries es s)) = cache_dir s"
  "dnd (snd (load_entries es s)) = dnd s"
  "popup_timeout (snd (load_entries es s)) = popup_timeout s"
  "max_popups_count (snd (load_entries es s)) = max_popups_count s"
  "idle_queue (snd (load_entries es s)) = idle_queue s"
  "trace (snd (load_entries es s)) = trace s"
  by (induction es arbitrary: s; simp add: snd_and_then split: result.splits)+

lemma same_data_restored [simp]: "same_data (restored n) n"
  by (simp add: same_data_def restored_def)

lemma keys_of_objects:
  "keys_match s \<Longrightarrow>
   map n_id (map (\<lambda>a. heap s ! a) (dict_values (svc_notifications s))) = map fst (svc_notifications s)"
  by (auto simp: keys_match_def dict_values_def list_all_iff)

lemma nth_append_upt:
  "map (\<lambda>a. (h @ xs) ! a) [length h ..< length h + length xs] = xs"
  by (rule nth_equalityI) (simp_all add: nth_append)

text \<open>
  C5. Let the collection be a dictionary of objects keyed by their ids. Starting the
  service on the file that \<^verbatim>\<open>__sync\<close> wrote gives back the id counter, the ids in
  the same order, and for each id a notification with the same id, application name,
  icon, summary, body, actions (the pairs rebuilt from the alternating list), urgency,
  timeout and time; the file is left as written.
\<close>

theorem load_after_sync:
  assumes "keys_match s"
  shows "svc_id (init_service dir d t c (cache_file (sync s))) = svc_id s
    \<and> map fst (svc_notifications (init_service dir d t c (cache_file (sync s))))
        = map fst (svc_notifications s)
    \<and> list_all2 same_data
         (map (\<lambda>a. heap (init_service dir d t c (cache_file (sync s))) ! a)
            (dict_values (svc_notifications (init_service dir d t c (cache_file (sync s))))))
         (map (\<lambda>a. heap s ! a) (dict_values (svc_notifications s)))
    \<and> cache_file (init_service dir d t c (cache_file (sync s))) = cache_file (sync s)"
proof -
  define ns where "ns = map (\<lambda>a. heap s ! a) (dict_values (svc_notifications s))"
  define f where "f = fresh dir d t c (cache_file (sync s))"
  define r where "r = load_entries (map (\<lambda>n. Object (json n)) ns) f"
  have ids: "map n_id ns = map fst (svc_notifications s)"
    unfolding ns_def using assms by (rule keys_of_objects)
  have dist: "distinct (map n_id ns)"
    using assms by (simp only: ids) (simp add: keys_match_def)
  have e: "set (map n_id ns) \<inter> fst ` set (svc_notifications f) = {}"
    by (simp add: f_def)
  note L = load_entries_json [OF dist e, folded r_def]
  have blob_eq: "cache_file (sync s)
      = Document (Some (svc_id s)) (Some (Entries (map (\<lambda>n. Object (json n)) ns)))"
    by (simp add: sync_def document_def ns_def)
  have tl: "try_load f = (Returned (), (snd r)\<lparr>svc_id := svc_id s\<rparr>)"
    using L by (cases r) (simp add: try_load_def blob_eq f_def r_def)
  have init: "init_service dir d t c (cache_file (sync s)) = (snd r)\<lparr>svc_id := svc_id s\<rparr>"
    using tl by (simp add: init_service_def load_notifications_def f_def)
  have heap': "heap (snd r) = map restored ns" using L by (simp add: f_def)
  have dict': "svc_notifications (snd r) = zip (map n_id ns) [0 ..< length ns]"
    using L by (simp add: f_def)
  have vals: "dict_values (svc_notifications (snd r)) = [0 ..< length ns]"
    by (simp add: dict' dict_values_def)
  have objs: "map (\<lambda>a. heap (snd r) ! a) (dict_values (svc_notifications (snd r))) = map restored ns"
    unfolding vals heap' by (rule nth_equalityI) simp_all
  have keys: "map fst (svc_notifications (snd r)) = map fst (svc_notifications s)"
    by (simp add: dict' ids [symmetric])
  have cf: "cache_file (snd r) = cache_file (sync s)"
    by (simp add: r_def f_def)
  have same: "list_all2 same_data (map restored ns) ns"
    by (simp add: list_all2_conv_all_nth)
  show ?thesis
    unfolding init using objs keys cf same
    by (simp add: ns_def [symmetric])
qed


theorem load_after_sync_witness:
  "keys_match (init_service ''/c'' False 5000 3 ex_file)
   \<and> svc_id (init_service ''/c'' True 0 1 (cache_file (sync (init_service ''/c'' False 5000 3 ex_file)))) = 7
   \<and> map fst (svc_notifications
         (init_service ''/c'' True 0 1 (cache_file (sync (init_service ''/c'' False 5000 3 ex_file)))))
       = [1, 4]"
proof -
  have s: "init_service ''/c'' False 5000 3 ex_file =
      (snd (load_entries [Object ex_stored, Object (ex_stored\<lparr>j_id := Some 4\<rparr>)]
         (fresh ''/c'' False 5000 3 ex_file)))\<lparr>svc_id := 7\<rparr>"
    by (simp add: init_service_def load_notifications_def try_load_def ex_file_def ex_stored_def
        load_entry_def new_notification_def)
  have k: "keys_match (init_service ''/c'' False 5000 3 ex_file)"
    unfolding s
    by (simp add: keys_match_def ex_stored_def load_entry_def new_notification_def
        add_notification_def connect_closed_def connect_dismissed_def Let_def dict_set_def)
  have i: "svc_id (init_service ''/c'' False 5000 3 ex_file) = 7"
    and n: "map fst (svc_notifications (init_service ''/c'' False 5000 3 ex_file)) = [1, 4]"
    unfolding s
    by (simp_all add: ex_stored_def load_entry_def new_notification_def
        add_notification_def connect_closed_def connect_dismissed_def Let_def dict_set_def)
  show ?thesis
    using load_after_sync [OF k, of "''/c''" True 0 1] k i n by simp
qed

section \<open>Restored notifications are not popups\<close>

lemma load_entry_not_popup:
  "list_all (\<lambda>n. \<not> n_popup n) (heap s) \<Longrightarrow>
   list_all (\<lambda>n. \<not> n_popup n) (heap (snd (load_entry e s)))"
  by (auto simp: load_entry_def snd_and_then new_notification_def add_notification_def
      connect_closed_def connect_dismissed_def Let_def list_all_iff
      split: entry.splits option.splits result.splits sum.splits
      dest!: set_update_subset_insert [THEN subsetD])

lemma load_entries_not_popup:
  "list_all (\<lambda>n. \<not> n_popup n) (heap s) \<Longrightarrow>
   list_all (\<lambda>n. \<not> n_popup n) (heap (snd (load_entries es s)))"
proof (induction es arbitrary: s)
  case Nil
  then show ?case by simp
next
  case (Cons e es)
  show ?case
  proof (cases "fst (load_entry e s)")
    case (Returned u)
    then show ?thesis
      using Cons.IH [OF load_entry_not_popup [OF Cons.prems, of e]]
      by (simp add: snd_and_then)
  next
    case (Raised x)
    then show ?thesis
      using load_entry_not_popup [OF Cons.prems, of e] by (simp add: snd_and_then)
  qed
qed

lemma try_load_frame [simp]:
  "svc_popups (snd (try_load s)) = svc_popups s"
  "idle_queue (snd (try_load s)) = idle_queue s"
  "trace (snd (try_load s)) = trace s"
  by (simp_all add: try_load_def snd_and_then split: blob.splits option.splits entries.splits result.splits)

lemma try_load_not_popup:
  "list_all (\<lambda>n. \<not> n_popup n) (heap s) \<Longrightarrow> list_all (\<lambda>n. \<not> n_popup n) (heap (snd (try_load s)))"
  by (simp add: try_load_def snd_and_then load_entries_not_popup
      split: blob.splits option.splits entries.splits result.splits)

lemma load_notifications_eq:
  "load_notifications s =
     (case fst (try_load s) of
        Returned _ \<Rightarrow> snd (try_load s)
      | Raised _ \<Rightarrow> (record_event Log_warning (snd (try_load s)))\<lparr>cache_file := NOTIFICATIONS_EMPTY_CACHE_FILE\<rparr>)"
  by (cases "try_load s") (simp add: load_notifications_def split: result.splits)

text \<open>
  C10. Whatever the cache file holds, after \<^verbatim>\<open>NotificationService.__init__\<close> the
  popups are empty, no notification object has \<^verbatim>\<open>popup\<close> set, and no callback
  waits on the main loop.
\<close>

theorem restored_not_popup:
  "svc_popups (init_service dir d t c file) = []
   \<and> list_all (\<lambda>n. \<not> n_popup n) (heap (init_service dir d t c file))
   \<and> idle_queue (init_service dir d t c file) = []"
proof -
  have "list_all (\<lambda>n. \<not> n_popup n) (heap (snd (try_load (fresh dir d t c file))))"
    by (rule try_load_not_popup) simp
  then show ?thesis
    by (simp add: init_service_def load_notifications_eq split: result.splits)
qed

theorem restored_not_popup_witness:
  "svc_popups (init_service ''/c'' False 5000 3 ex_corrupt_file) = []
   \<and> list_all (\<lambda>n. \<not> n_popup n) (heap (init_service ''/c'' False 5000 3 ex_corrupt_file))
   \<and> length (heap (init_service ''/c'' False 5000 3 ex_corrupt_file)) = 1"
  using restored_not_popup [of "''/c''" False 5000 3 ex_corrupt_file]
  by (simp add: init_service_def load_notifications_def try_load_def ex_corrupt_file_def ex_stored_def
      load_entry_def new_notification_def add_notification_def connect_closed_def connect_dismissed_def
      fresh_def Let_def dict_set_def)

section \<open>A cache file that fails to load\<close>

text \<open>
  C4. The file \<open>ex_corrupt_file\<close> holds a well-formed record followed by a record
  without the key \<^verbatim>\<open>"body"\<close>. Loading it raises inside the \<^verbatim>\<open>try\<close> block on the
  second record: the warning is logged and the file is rewritten to
  \<open>NOTIFICATIONS_EMPTY_CACHE_FILE\<close>, but the notification built from the first record
  stays in the collection.
\<close>

theorem load_corrupt_keeps_loaded:
  "map fst (svc_notifications (init_service ''/c'' False 5000 3 ex_corrupt_file)) = [1]
   \<and> length (heap (init_service ''/c'' False 5000 3 ex_corrupt_file)) = 1
   \<and> cache_file (init_service ''/c'' False 5000 3 ex_corrupt_file) = NOTIFICATIONS_EMPTY_CACHE_FILE
   \<and> svc_id (init_service ''/c'' False 5000 3 ex_corrupt_file) = 0
   \<and> trace (init_service ''/c'' False 5000 3 ex_corrupt_file) = [Log_warning]"
  by (simp add: init_service_def load_notifications_def try_load_def ex_corrupt_file_def ex_stored_def
      load_entry_def new_notification_def add_notification_def connect_closed_def connect_dismissed_def
      fresh_def Let_def dict_set_def record_event_def)


section \<open>Closing a notification that does not exist\<close>

text \<open>
  C8. When no notification of the collection has the given id,
  \<^verbatim>\<open>CloseNotification\<close> returns the state it was called in: the collection, the
  popups, the cache file, the waiting callbacks and the delivered signals are all
  unchanged, under either emission discipline.
\<close>

theorem CloseNotification_absent:
  "get_notification s i = None \<Longrightarrow> CloseNotification m now i s = s"
  by (simp add: CloseNotification_def)

theorem CloseNotification_absent_witness:
  "get_notification (fresh ''/c'' False 5000 3 Unreadable) 7 = None
   \<and> CloseNotification Idle 0 7 (fresh ''/c'' False 5000 3 Unreadable)
       = fresh ''/c'' False 5000 3 Unreadable"
  using CloseNotification_absent [of "fresh ''/c'' False 5000 3 Unreadable" 7 Idle 0]
  by (simp add: get_notification_def dict_get_def fresh_def)

section \<open>Dismissing twice\<close>

lemma emitted_enqueue [simp]:
  "emitted (enqueue ev s) ev' = emitted s ev' + (if ev = ev' then 1 else 0)"
  by (simp add: emitted_def)

lemma emitted_record_event [simp]:
  "emitted (record_event ev s) ev' = emitted s ev' + (if ev = ev' then 1 else 0)"
  by (simp add: emitted_def)

lemma emitted_emit [simp]:
  "emitted (emit m ev s) ev' = emitted s ev' + (if ev = ev' then 1 else 0)"
  by (cases m) simp_all

lemma emitted_set_popup [simp]: "emitted (set_popup a b s) ev = emitted s ev"
  by (simp add: emitted_def)

lemma emitted_svc_popups_update [simp]: "emitted (s\<lparr>svc_popups := ps\<rparr>) ev = emitted s ev"
  by (simp add: emitted_def)

lemma emitted_dismiss_popup [simp]:
  "emitted (dismiss_popup m a s) (Dismissed b) = emitted s (Dismissed b)"
  by (simp add: dismiss_popup_def split: option.splits)

lemma emitted_fold_dismiss_popup [simp]:
  "emitted (fold (\<lambda>h. case h of Dismiss_popup \<Rightarrow> dismiss_popup m a) hs s) (Dismissed b)
     = emitted s (Dismissed b)"
  by (induction hs arbitrary: s) (simp_all split: dismissed_handler.splits)

lemma emitted_emit_dismissed [simp]:
  "emitted (emit_dismissed m a s) (Dismissed b) = emitted s (Dismissed b) + (if a = b then 1 else 0)"
  by (cases m) (simp_all add: emit_dismissed_def deliver_dismissed_def)

lemma emitted_dismiss:
  "emitted (dismiss m a s) (Dismissed a) = emitted s (Dismissed a) + (if n_popup (heap s ! a) then 1 else 0)"
  by (simp add: dismiss_def)

lemma dismiss_not_popup: "\<not> n_popup (heap s ! a) \<Longrightarrow> dismiss m a s = s"
  by (simp add: dismiss_def)

lemma not_popup_after_dismiss: "a < length (heap s) \<Longrightarrow> \<not> n_popup (heap (dismiss m a s) ! a)"
  by (simp add: heap_dismiss)

text \<open>
  C9, as the code has it. For every notification object and under either emission
  discipline, a second \<^verbatim>\<open>dismiss\<close> returns the state the first one left: the
  object, the popups and everything else are unchanged. Over the two calls \<^verbatim>\<open>"dismissed"\<close> is emitted once
  when the notification was a popup (and not at all when it was not); after the first
  call \<^verbatim>\<open>popup\<close> is cleared, and no run of the daemon sets \<^verbatim>\<open>popup\<close> on an object
  on which it is cleared.
\<close>

theorem dismiss_idempotent:
  assumes "a < length (heap s)"
  shows "dismiss m a (dismiss m a s) = dismiss m a s
    \<and> emitted (dismiss m a (dismiss m a s)) (Dismissed a)
        = emitted s (Dismissed a) + (if n_popup (heap s ! a) then 1 else 0)
    \<and> \<not> n_popup (heap (dismiss m a s) ! a)
    \<and> (\<not> n_popup (heap s ! a) \<longrightarrow> \<not> n_popup (heap (run m xs s) ! a))"
proof -
  have off: "\<not> n_popup (heap (dismiss m a s) ! a)"
    using assms by (rule not_popup_after_dismiss)
  then have again: "dismiss m a (dismiss m a s) = dismiss m a s"
    by (rule dismiss_not_popup)
  have "evolves (heap s) (heap (run m xs s))"
    by (rule evolves_run) simp
  then have never: "\<not> n_popup (heap s ! a) \<longrightarrow> \<not> n_popup (heap (run m xs s) ! a)"
    using assms by (auto simp: evolves_def)
  show ?thesis
    using off again never by (simp add: emitted_dismiss)
qed

theorem dismiss_idempotent_witness:
  "(0::nat) < length (heap ex_one)
   \<and> n_popup (heap ex_one ! 0)
   \<and> dismiss Idle 0 (dismiss Idle 0 ex_one) = dismiss Idle 0 ex_one
   \<and> emitted (dismiss Idle 0 (dismiss Idle 0 ex_one)) (Dismissed 0) = 1
   \<and> idle_queue (dismiss Idle 0 ex_one) = [Dismissed 0, Property_popup 0]"
proof -
  have none: "emitted ex_one (Dismissed 0) = 0"
    by (simp add: emitted_def ex_one_def)
  have len: "(0::nat) < length (heap ex_one)" and pop: "n_popup (heap ex_one ! 0)"
    by (simp_all add: ex_one_def ex_notification_def)
  have queue: "idle_queue (dismiss Idle 0 ex_one) = [Dismissed 0, Property_popup 0]"
    by (simp add: dismiss_def emit_dismissed_def ex_one_def ex_notification_def set_popup_def enqueue_def)
  note T = dismiss_idempotent [OF len, of Idle "[]"]
  have once: "emitted (dismiss Idle 0 (dismiss Idle 0 ex_one)) (Dismissed 0) = 1"
    using T [THEN conjunct2, THEN conjunct1] none pop by simp
  show ?thesis
    using T [THEN conjunct1] once len pop queue by simp
qed

text \<open>
  C9 as claimed fails for a notification that is not a popup: one created while
  \<^verbatim>\<open>dnd\<close> is set (or restored from the cache) has \<^verbatim>\<open>popup\<close> cleared from the start,
  and two calls of \<^verbatim>\<open>dismiss\<close>, as its timer makes them, emit no \<^verbatim>\<open>"dismissed"\<close>
  at all.
\<close>

theorem dismiss_twice_no_event:
  "fst (Notify Immediate ex_args 0 1 (init_service ''/c'' True 5000 3 Unreadable)) = Returned 1
   \<and> get_notification (snd (Notify Immediate ex_args 0 1 (init_service ''/c'' True 5000 3 Unreadable))) 1
       = Some 0
   \<and> emitted (dismiss Immediate 0 (dismiss Immediate 0
        (snd (Notify Immediate ex_args 0 1 (init_service ''/c'' True 5000 3 Unreadable))))) (Dismissed 0) = 0"
proof -
  have "snd (Notify Immediate ex_args 0 1 (init_service ''/c'' True 5000 3 Unreadable))
      = ex_one\<lparr>svc_popups := [], heap := [ex_notification 1 1 False], dnd := True,
          trace := [Log_warning, Notified 0, Property_notifications]\<rparr>"
    by (simp add: ex_one_def init_service_def load_notifications_def try_load_def fresh_def
        NOTIFICATIONS_EMPTY_CACHE_FILE_def eval_defs)
  moreover have "fst (Notify Immediate ex_args 0 1 (init_service ''/c'' True 5000 3 Unreadable)) = Returned 1"
    by (simp add: init_service_def load_notifications_def try_load_def fresh_def
        NOTIFICATIONS_EMPTY_CACHE_FILE_def eval_defs and_then_def)
  ultimately show ?thesis
    by (simp add: emitted_def get_notification_def dict_get_def dismiss_def)
      (simp add: ex_one_def ex_notification_def)
qed

section \<open>The icon of a new notification\<close>

text \<open>
  C7, as the code has it. Whenever \<^verbatim>\<open>__init_notification\<close> completes, the
  notification registered under the id is the new object; when the hints carry
  \<^verbatim>\<open>"image-data"\<close> its icon is the image file of that id under the cache directory,
  whatever \<^verbatim>\<open>app_icon\<close> is, and the image has been saved there; when they carry
  none, its icon is \<^verbatim>\<open>app_icon\<close> as given and no image file is written.
\<close>

theorem icon_resolution:
  assumes "fst (init_notification m args i now s) = Returned u"
  shows "get_notification (snd (init_notification m args i now s)) i = Some (length (heap s))
    \<and> n_icon (heap (snd (init_notification m args i now s)) ! length (heap s))
        = Some (case image_data (hints args) of None \<Rightarrow> app_icon args | Some px \<Rightarrow> image_path s i)
    \<and> (case image_data (hints args) of
          None \<Rightarrow> image_files (snd (init_notification m args i now s)) = image_files s
        | Some px \<Rightarrow>
            dict_get (image_files (snd (init_notification m args i now s))) (image_path s i)
              = Some \<lparr>px_width = px ! 0, px_height = px ! 1, px_has_alpha = px ! 3,
                      px_data = px ! 6, px_rowstride = px ! 2, px_bits_per_sample = px ! 4\<rparr>)"
proof -
  note R = init_notification_Returned [OF assms]
  have "fst (resolve_icon args i s) \<noteq> Raised IndexError"
    using assms by (auto elim: init_notification_ReturnedE)
  then have files: "case image_data (hints args) of
          None \<Rightarrow> image_files (snd (resolve_icon args i s)) = image_files s
        | Some px \<Rightarrow>
            dict_get (image_files (snd (resolve_icon args i s))) (image_path s i)
              = Some \<lparr>px_width = px ! 0, px_height = px ! 1, px_has_alpha = px ! 3,
                      px_data = px ! 6, px_rowstride = px ! 2, px_bits_per_sample = px ! 4\<rparr>"
    by (simp add: resolve_icon_eq dict_get_dict_set split: option.splits if_splits)
  have "n_icon (heap (snd (init_notification m args i now s)) ! length (heap s))
      = Some (case image_data (hints args) of None \<Rightarrow> app_icon args | Some px \<Rightarrow> image_path s i)"
    using R(2) by (simp add: same_data_def built_def)
  then show ?thesis
    using R(3) files by (simp add: R(4) cong: option.case_cong)
qed

theorem icon_resolution_witness:
  "fst (init_notification Idle ex_image_args 1 0 (fresh ''/c'' False 5000 3 Unreadable)) = Returned ()
   \<and> get_notification (snd (init_notification Idle ex_image_args 1 0 (fresh ''/c'' False 5000 3 Unreadable))) 1
       = Some 0
   \<and> n_icon (heap (snd (init_notification Idle ex_image_args 1 0 (fresh ''/c'' False 5000 3 Unreadable))) ! 0)
       = Some ''/c/notifications/images/1''"
proof -
  have ok: "fst (init_notification Idle ex_image_args 1 0 (fresh ''/c'' False 5000 3 Unreadable)) = Returned ()"
    by (simp add: init_notification_def resolve_icon_eq ex_image_args_def new_notification_def
        evict_eq evicting_def fst_and_then)
  show ?thesis
    using icon_resolution [OF ok] ok
    by (simp add: ex_image_args_def image_path_def)
qed

text \<open>
  C7 as claimed fails: a call with the non-empty \<^verbatim>\<open>app_icon\<close> \<open>firefox\<close> and image
  data gets id 1 and the icon \<^verbatim>\<open>/c/notifications/images/1\<close>, not \<open>firefox\<close>.
\<close>

theorem app_icon_overridden:
  "app_icon ex_image_args \<noteq> ''''
   \<and> fst (Notify Idle ex_image_args 0 0 (fresh ''/c'' False 5000 3 Unreadable)) = Returned 1
   \<and> n_icon (heap (snd (Notify Idle ex_image_args 0 0 (fresh ''/c'' False 5000 3 Unreadable))) ! 0)
       \<noteq> Some (app_icon ex_image_args)"
proof -
  let ?s = "(fresh ''/c'' False 5000 3 Unreadable)\<lparr>svc_id := 1\<rparr>"
  have ok: "fst (init_notification Idle ex_image_args 1 0 ?s) = Returned ()"
    by (simp add: init_notification_def resolve_icon_eq ex_image_args_def new_notification_def
        evict_eq evicting_def fst_and_then)
  have N: "Notify Idle ex_image_args 0 0 (fresh ''/c'' False 5000 3 Unreadable)
      = (Returned 1, snd (init_notification Idle ex_image_args 1 0 ?s))"
    using ok by (cases "init_notification Idle ex_image_args 1 0 ?s") (simp add: Notify_def Let_def)
  have "n_icon (heap (snd (init_notification Idle ex_image_args 1 0 ?s)) ! 0)
      = Some ''/c/notifications/images/1''"
    using init_notification_Returned(2) [OF ok]
    by (simp add: same_data_def built_def ex_image_args_def image_path_def)
  then show ?thesis
    by (simp add: N) (simp add: ex_image_args_def)
qed

section \<open>Which popup is dismissed to make room\<close>

lemma ex_two_reached: "snd (Notify Immediate ex_args 0 2 ex_one) = ex_two"
  by (simp add: ex_one_def ex_two_def eval_defs)

lemma ex_three_reached: "snd (Notify Immediate ex_args 0 3 ex_two) = ex_three"
  by (simp add: ex_two_def ex_three_def eval_defs)

lemma ex_three_run:
  "run Immediate [(1, Call_Notify ex_args 0), (2, Call_Notify ex_args 0), (3, Call_Notify ex_args 0)]
     (init_service ''/c'' False 5000 3 Unreadable) = ex_three"
  by (simp add: run_def step_def ex_one_reached ex_two_reached ex_three_reached)

text \<open>
  C3 fails. With the popups 1, 2, 3 inserted in that order and \<^verbatim>\<open>max_popups_count\<close>
  3, a fourth \<^verbatim>\<open>Notify\<close> dismisses \<^verbatim>\<open>self.popups[-1]\<close>, the last value of the
  dictionary, which is notification 3, the newest of the three: the popups are
  then 1, 2, 4, listed oldest first, and notification 1, the oldest, is still a
  popup. This is so when signals are delivered at once, and also when they are
  delivered by the main loop (where the four are popups together until the
  \<^verbatim>\<open>"dismissed"\<close> signal of 3 is delivered).
\<close>

theorem newest_popup_dismissed:
  "map fst (svc_popups (snd (Notify Immediate ex_args 0 4 ex_three))) = [1, 2, 4]
   \<and> map (\<lambda>n. (n_id n, n_time n, n_popup n)) (heap (snd (Notify Immediate ex_args 0 4 ex_three)))
       = [(1, 1, True), (2, 2, True), (3, 3, False), (4, 4, True)]
   \<and> map fst (svc_popups (snd (Notify Idle ex_args 0 4 ex_three))) = [1, 2, 3, 4]
   \<and> map fst (svc_popups (idle_steps Idle [5, 5, 5, 5, 5, 5, 5] (snd (Notify Idle ex_args 0 4 ex_three))))
       = [1, 2, 4]
   \<and> idle_queue (idle_steps Idle [5, 5, 5, 5, 5, 5, 5] (snd (Notify Idle ex_args 0 4 ex_three))) = []"
  by (simp add: ex_three_def eval_defs idle_steps_def idle_step_def deliver_def)

section \<open>Delivery by the main loop\<close>

lemma pending_keys_append [simp]:
  "pending_keys h (q @ q') = pending_keys h q @ pending_keys h q'"
  by (induction q) simp_all

lemma pending_keys_replicate [simp]: "pending_keys h (replicate j Property_popups) = []"
  by (induction j) simp_all

lemma cost_append [simp]: "cost h (q @ q') = cost h q + cost h q'"
  by (induction q) simp_all

lemma cost_replicate [simp]: "cost h (replicate j Property_popups) = j"
  by (induction j) simp_all

lemma closed_free_append [simp]: "closed_free (q @ q') \<longleftrightarrow> closed_free q \<and> closed_free q'"
  by (simp add: closed_free_def)

lemma closed_free_replicate [simp]: "closed_free (replicate j Property_popups)"
  by (simp add: closed_free_def list_all_iff)

lemma closed_free_Cons [simp]:
  "closed_free (ev # q) \<longleftrightarrow> (case ev of Closed _ \<Rightarrow> False | _ \<Rightarrow> True) \<and> closed_free q"
  by (simp add: closed_free_def)

lemma closed_free_Nil [simp]: "closed_free []"
  by (simp add: closed_free_def)

lemma remaining_Nil [simp]: "remaining h [] ps = ps"
  by (simp add: remaining_def)



lemma remaining_append_replicate [simp]:
  "remaining h (q @ replicate j Property_popups) ps = remaining h q ps"
  by (simp add: remaining_def)


lemma trace_dismiss_popup_Idle [simp]: "trace (dismiss_popup Idle a s) = trace s"
  by (simp add: dismiss_popup_def split: option.splits)



lemma idle_steps_Nil [simp]: "idle_steps m [] s = s"
  by (simp add: idle_steps_def)

lemma idle_steps_Cons [simp]: "idle_steps m (n # ns) s = idle_steps m ns (idle_step m n s)"
  by (simp add: idle_steps_def)





lemma queue_below_simps [simp]:
  "queue_below n []"
  "queue_below n (ev # q) \<longleftrightarrow> (case ev of Dismissed a \<Rightarrow> a < n | _ \<Rightarrow> True) \<and> queue_below n q"
  "queue_below n (q @ q') \<longleftrightarrow> queue_below n q \<and> queue_below n q'"
  by (simp_all add: queue_below_def)

lemma queue_below_mono: "queue_below n q \<Longrightarrow> n \<le> n' \<Longrightarrow> queue_below n' q"
  by (induction q) (auto split: event.splits)



lemma nth_flag_fields [simp]:
  "n_id (h[b := (h ! b)\<lparr>n_popup := f\<rparr>] ! c) = n_id (h ! c)"
  "on_dismissed (h[b := (h ! b)\<lparr>n_popup := f\<rparr>] ! c) = on_dismissed (h ! c)"
  "on_closed (h[b := (h ! b)\<lparr>n_popup := f\<rparr>] ! c) = on_closed (h ! c)"
  by (cases "b = c"; cases "b < length h"; simp add: list_update_beyond)+

lemma nth_flag_popup:
  "n_popup (h[b := (h ! b)\<lparr>n_popup := False\<rparr>] ! c) = (n_popup (h ! c) \<and> (c = b \<longrightarrow> length h \<le> b))"
  by (cases "b = c"; cases "b < length h"; simp add: list_update_beyond)

subsection \<open>Idle emission, operation by operation\<close>




lemma evicting_frame [simp]:
  "evicting (snd (resolve_icon args i s)) = evicting s"
  "evicting (snd (new_notification i an ic su bd ac ur tmo tm p s)) = evicting s"
  by (simp_all add: evicting_def)








subsection \<open>A service at rest\<close>





subsection \<open>Immediate emission never touches the main loop\<close>

lemma idle_queue_Immediate [simp]:
  "idle_queue (dismiss_popup Immediate a s) = idle_queue s"
  "idle_queue (deliver_dismissed Immediate a s) = idle_queue s"
  "idle_queue (emit_dismissed Immediate a s) = idle_queue s"
  "idle_queue (dismiss Immediate a s) = idle_queue s"
  "idle_queue (snd (close_notification Immediate a s)) = idle_queue s"
  "idle_queue (snd (evict Immediate s)) = idle_queue s"
  "idle_queue (admit Immediate a s) = idle_queue s"
proof -
  show 1: "idle_queue (dismiss_popup Immediate a s) = idle_queue s" for a s
    by (simp add: dismiss_popup_def split: option.splits)
  have "idle_queue (fold (\<lambda>h. case h of Dismiss_popup \<Rightarrow> dismiss_popup Immediate a) hs s) = idle_queue s"
    for hs a s
    by (induction hs arbitrary: s) (simp_all add: 1 split: dismissed_handler.splits)
  then show 2: "idle_queue (deliver_dismissed Immediate a s) = idle_queue s" for a s
    by (simp add: deliver_dismissed_def)
  show 3: "idle_queue (emit_dismissed Immediate a s) = idle_queue s" for a s
    by (simp add: emit_dismissed_def 2)
  show 4: "idle_queue (dismiss Immediate a s) = idle_queue s" for a s
    by (simp add: dismiss_def 3)
  show "idle_queue (snd (close_notification Immediate a s)) = idle_queue s"
    by (simp add: close_notification_def Let_def 4 split: option.splits)
  show "idle_queue (snd (evict Immediate s)) = idle_queue s"
    by (simp add: evict_eq 4)
  show "idle_queue (admit Immediate a s) = idle_queue s"
    by (simp add: admit_def Let_def)
qed

lemma idle_queue_init_Immediate [simp]:
  "idle_queue (snd (init_notification Immediate args i now s)) = idle_queue s"
  by (simp add: init_notification_def snd_and_then split: result.splits)

lemma idle_queue_deliver_closed_Immediate [simp]:
  "idle_queue (deliver_closed Immediate now a s) = idle_queue s"
proof -
  have "idle_queue (fold (run_closed_handler Immediate now a) hs t) = idle_queue t" for hs t
    by (induction hs arbitrary: t)
      (simp_all add: run_closed_handler_def split: closed_handler.splits)
  then show ?thesis by (simp add: deliver_closed_def)
qed

lemma idle_queue_Notify_Immediate [simp]:
  "idle_queue (snd (Notify Immediate args r now s)) = idle_queue s"
  by (simp add: Notify_def Let_def snd_and_then close_def split: option.splits result.splits)

subsection \<open>The popups never grow when a notification is dismissed or closed\<close>








lemma svc_id_update_frame [simp]:
  "evicting (s\<lparr>svc_id := x\<rparr>) = evicting s"
  by (simp add: evicting_def)





section \<open>The number of popups\<close>




section \<open>Replacing a notification\<close>




text \<open>
  The deferred delivery matters here. \<^verbatim>\<open>__Notify\<close> connects \<^verbatim>\<open>_init\<close> to \<^verbatim>\<open>"closed"\<close>
  after \<^verbatim>\<open>close()\<close> has returned: were the callbacks run before \<^verbatim>\<open>emit\<close> returns,
  the old notification would be removed and no replacement constructed.
\<close>

lemma Notify_replace_Immediate:
  "get_notification (snd (Notify Immediate ex_args 1 9 ex_one)) 1 = None
   \<and> length (heap (snd (Notify Immediate ex_args 1 9 ex_one))) = 1
   \<and> on_closed (heap (snd (Notify Immediate ex_args 1 9 ex_one)) ! 0)
       = [Close_notification, Init_replacement ex_args 1]
   \<and> idle_queue (snd (Notify Immediate ex_args 1 9 ex_one)) = []"
  by (simp add: ex_one_def eval_defs get_notification_def close_def deliver_closed_def
      run_closed_handler_def close_notification_def emit_def)

end
